theory Spec2Isabelle
  imports Complex_Main
begin

section \<open>The host scene\<close>

text \<open>
  \<^verbatim>\<open>create_turntable.py\<close> drives two collaborators that are not part of the
  repository: the scene of the host application (\<^verbatim>\<open>maya.cmds\<close>) and the widget
  toolkit. Both are modelled here only as far as the script touches them.

  Python floats (times, key values, the angle interval) are modelled as reals: the
  arithmetic of the script is read as exact arithmetic. Objects of the scene are
  identified by the position at which they were created; a deleted object leaves a
  gap, so a position is never used twice. A name field of the script, which follows
  its object through renaming and reparenting, is modelled as that position.
\<close>

datatype error = ZeroDivisionError | NoSuchObject | NoSuchControl

datatype tangent_type = Auto | Spline | Linear | Flat | Stepped

record keyframe =
  key_value :: real
  inTangentType :: tangent_type
  outTangentType :: tangent_type

type_synonym anim_curve = "real \<Rightarrow> keyframe option"

datatype node_kind = PolySphere | Camera | EmptyGroup

record node =
  kind :: node_kind
  parent_of :: "nat option"
  translateX :: real
  translateY :: real
  translateZ :: real
  anim :: "string \<Rightarrow> anim_curve"

record scene =
  nodes :: "node option list"
  minTime :: real
  maxTime :: real
  animationEndTime :: real
  selected_keys :: "nat \<Rightarrow> string \<Rightarrow> real \<Rightarrow> bool"
  default_tangent :: tangent_type

definition lookup_node :: "scene \<Rightarrow> nat \<Rightarrow> node option" where
  "lookup_node sc i = (if i < length (nodes sc) then nodes sc ! i else None)"

definition objExists :: "scene \<Rightarrow> nat \<Rightarrow> bool" where
  "objExists sc i = (lookup_node sc i \<noteq> None)"

definition new_node :: "node_kind \<Rightarrow> real \<Rightarrow> real \<Rightarrow> real \<Rightarrow> node" where
  "new_node k x y z =
     \<lparr>kind = k, parent_of = None, translateX = x, translateY = y, translateZ = z,
      anim = (\<lambda>a t. None)\<rparr>"

text \<open>Creating an object appends it; the call returns where it stands.\<close>

definition create_node :: "node \<Rightarrow> scene \<Rightarrow> nat \<times> scene" where
  "create_node nd sc = (length (nodes sc), sc\<lparr>nodes := nodes sc @ [Some nd]\<rparr>)"

definition polySphere :: "scene \<Rightarrow> nat \<times> scene" where
  "polySphere sc = create_node (new_node PolySphere 0 0 0) sc"

definition camera :: "real \<times> real \<times> real \<Rightarrow> scene \<Rightarrow> nat \<times> scene" where
  "camera p sc = (case p of (x, y, z) \<Rightarrow> create_node (new_node Camera x y z) sc)"

definition group_empty :: "scene \<Rightarrow> nat \<times> scene" where
  "group_empty sc = create_node (new_node EmptyGroup 0 0 0) sc"

text \<open>A command that names an object fails when the object is not in the scene.\<close>

definition update_node :: "nat \<Rightarrow> (node \<Rightarrow> node) \<Rightarrow> scene \<Rightarrow> error + scene" where
  "update_node i f sc =
     (case lookup_node sc i of
        None \<Rightarrow> Inl NoSuchObject
      | Some nd \<Rightarrow> Inr (sc\<lparr>nodes := (nodes sc)[i := Some (f nd)]\<rparr>))"

text \<open>\<^verbatim>\<open>cmds.parent(child, parent, relative=True)\<close>: the local transform is kept.\<close>

definition parent_relative :: "nat \<Rightarrow> nat \<Rightarrow> scene \<Rightarrow> error + scene" where
  "parent_relative child p sc =
     (if objExists sc p then update_node child (\<lambda>nd. nd\<lparr>parent_of := Some p\<rparr>) sc
      else Inl NoSuchObject)"

definition setAttr_translateY :: "nat \<Rightarrow> real \<Rightarrow> scene \<Rightarrow> error + scene" where
  "setAttr_translateY i v sc = update_node i (\<lambda>nd. nd\<lparr>translateY := v\<rparr>) sc"

definition setAttr_translateZ :: "nat \<Rightarrow> real \<Rightarrow> scene \<Rightarrow> error + scene" where
  "setAttr_translateZ i v sc = update_node i (\<lambda>nd. nd\<lparr>translateZ := v\<rparr>) sc"

text \<open>
  \<^verbatim>\<open>cmds.cutKey(obj, time=(a, b), attribute=attr)\<close> removes the keys of the
  channel whose time lies in the closed range.
\<close>

definition cut_range :: "real \<Rightarrow> real \<Rightarrow> anim_curve \<Rightarrow> anim_curve" where
  "cut_range a b c = (\<lambda>t. if a \<le> t \<and> t \<le> b then None else c t)"

definition cutKey :: "nat \<Rightarrow> real \<times> real \<Rightarrow> string \<Rightarrow> scene \<Rightarrow> error + scene" where
  "cutKey i rng attr sc =
     update_node i (\<lambda>nd. nd\<lparr>anim := (anim nd)(attr := cut_range (fst rng) (snd rng) (anim nd attr))\<rparr>) sc"

text \<open>
  \<^verbatim>\<open>cmds.setKeyframe(obj, time=t, attribute=attr, value=v)\<close> puts a key at
  \<open>t\<close>, with the tangents the host gives a new key.
\<close>

definition setKeyframe :: "nat \<Rightarrow> real \<Rightarrow> string \<Rightarrow> real \<Rightarrow> scene \<Rightarrow> error + scene" where
  "setKeyframe i t attr v sc =
     update_node i
       (\<lambda>nd. nd\<lparr>anim := (anim nd)(attr := (anim nd attr)
          (t \<mapsto> \<lparr>key_value = v, inTangentType = default_tangent sc,
                  outTangentType = default_tangent sc\<rparr>))\<rparr>) sc"

text \<open>
  \<^verbatim>\<open>cmds.selectKey(obj, time=(a, b), attribute=attr, keyframe=True)\<close> replaces the
  key selection by the keys of the channel in the closed range.
\<close>

definition selectKey :: "nat \<Rightarrow> real \<times> real \<Rightarrow> string \<Rightarrow> scene \<Rightarrow> error + scene" where
  "selectKey i rng attr sc =
     (case lookup_node sc i of
        None \<Rightarrow> Inl NoSuchObject
      | Some nd \<Rightarrow>
          Inr (sc\<lparr>selected_keys :=
            (\<lambda>j a t. j = i \<and> a = attr \<and> fst rng \<le> t \<and> t \<le> snd rng \<and> anim nd attr t \<noteq> None)\<rparr>))"

text \<open>
  \<^verbatim>\<open>cmds.keyTangent(inTangentType=x, outTangentType=y)\<close>, with no object named,
  acts on the selected keys.
\<close>

definition retangent :: "tangent_type \<Rightarrow> tangent_type \<Rightarrow> (real \<Rightarrow> bool) \<Rightarrow> anim_curve \<Rightarrow> anim_curve" where
  "retangent x y sel c =
     (\<lambda>t. case c t of
             None \<Rightarrow> None
           | Some k \<Rightarrow> if sel t then Some (k\<lparr>inTangentType := x, outTangentType := y\<rparr>) else Some k)"

definition retangent_node ::
  "tangent_type \<Rightarrow> tangent_type \<Rightarrow> (nat \<Rightarrow> string \<Rightarrow> real \<Rightarrow> bool) \<Rightarrow> nat \<times> node option \<Rightarrow> node option"
where
  "retangent_node x y sel p =
     (case snd p of
        None \<Rightarrow> None
      | Some nd \<Rightarrow> Some (nd\<lparr>anim := (\<lambda>a. retangent x y (sel (fst p) a) (anim nd a))\<rparr>))"

definition keyTangent :: "tangent_type \<Rightarrow> tangent_type \<Rightarrow> scene \<Rightarrow> scene" where
  "keyTangent x y sc =
     sc\<lparr>nodes := map (retangent_node x y (selected_keys sc)) (enumerate 0 (nodes sc))\<rparr>"

text \<open>
  \<^verbatim>\<open>cmds.playbackOptions(maxTime=t)\<close> and \<^verbatim>\<open>(animationEndTime=t)\<close>. The
  playback options are independent fields here: setting one does not move another.
\<close>

definition playbackOptions_maxTime :: "real \<Rightarrow> scene \<Rightarrow> error + scene" where
  "playbackOptions_maxTime t sc = Inr (sc\<lparr>maxTime := t\<rparr>)"

definition playbackOptions_animationEndTime :: "real \<Rightarrow> scene \<Rightarrow> error + scene" where
  "playbackOptions_animationEndTime t sc = Inr (sc\<lparr>animationEndTime := t\<rparr>)"

section \<open>The widgets of the settings panel\<close>

text \<open>
  A spin box and the slider linked to it. Both hold integers. The toolkit keeps a
  value inside the range of its widget, and tells the connected slots of a new value
  only when the value has changed.
\<close>

record linked_controls =
  spin_value :: int
  spin_minimum :: int
  spin_maximum :: int
  slider_value :: int
  slider_minimum :: int
  slider_maximum :: int

definition bound :: "int \<Rightarrow> int \<Rightarrow> int \<Rightarrow> int" where
  "bound lo hi v = max lo (min hi v)"

text \<open>
  \<^verbatim>\<open>slider.setRange\<close> takes integers. The script hands it the float
  \<^verbatim>\<open>spinner_value * increment\<close>, which the binding converts as \<^verbatim>\<open>int()\<close> does:
  towards zero.
\<close>

definition py_int :: "real \<Rightarrow> int" where
  "py_int x = (if 0 \<le> x then \<lfloor>x\<rfloor> else \<lceil>x\<rceil>)"

text \<open>
  The signal connections of \<^verbatim>\<open>initialize_UI\<close>, in the order they are made there:
  the spin box's \<^verbatim>\<open>valueChanged\<close> calls \<^verbatim>\<open>on_value_changed\<close> and then the
  slider's \<^verbatim>\<open>setValue\<close>; the slider's \<^verbatim>\<open>valueChanged\<close> calls the spin box's
  \<^verbatim>\<open>setValue\<close>. \<^verbatim>\<open>setRange\<close> stores the range, the maximum not below the minimum,
  and re-bounds the slider's value when the range has changed. The slots call each
  other, so the functions carry fuel: \<open>None\<close> means the fuel ran out. The floats
  \<^verbatim>\<open>buffer = 0.98\<close> and \<^verbatim>\<open>increment = 1.07\<close> are read as the rationals they
  are written as. Repainting (\<^verbatim>\<open>slider.update()\<close>) changes no state and is left out.
\<close>

fun spin_box_setValue :: "nat \<Rightarrow> int \<Rightarrow> linked_controls \<Rightarrow> linked_controls option"
and slider_setValue :: "nat \<Rightarrow> int \<Rightarrow> linked_controls \<Rightarrow> linked_controls option"
and slider_setRange :: "nat \<Rightarrow> int \<Rightarrow> int \<Rightarrow> linked_controls \<Rightarrow> linked_controls option"
and on_value_changed :: "nat \<Rightarrow> int \<Rightarrow> linked_controls \<Rightarrow> linked_controls option"
where
  "spin_box_setValue 0 v w = None"
| "spin_box_setValue (Suc n) v w =
     (let v' = bound (spin_minimum w) (spin_maximum w) v in
      if v' = spin_value w then Some w
      else (case on_value_changed n v' (w\<lparr>spin_value := v'\<rparr>) of
              None \<Rightarrow> None
            | Some w1 \<Rightarrow> slider_setValue n v' w1))"
| "slider_setValue 0 v w = None"
| "slider_setValue (Suc n) v w =
     (let v' = bound (slider_minimum w) (slider_maximum w) v in
      if v' = slider_value w then Some w
      else spin_box_setValue n v' (w\<lparr>slider_value := v'\<rparr>))"
| "slider_setRange 0 lo hi w = None"
| "slider_setRange (Suc n) lo hi w =
     (let w1 = w\<lparr>slider_minimum := lo, slider_maximum := max lo hi\<rparr> in
      if slider_minimum w \<noteq> slider_minimum w1 \<or> slider_maximum w \<noteq> slider_maximum w1
      then slider_setValue n (slider_value w1) w1
      else Some w1)"
| "on_value_changed 0 spinner_value w = None"
| "on_value_changed (Suc n) spinner_value w =
     (let buffer = 98 / 100;
          increment = 107 / 100 in
      case (if real_of_int spinner_value \<ge> real_of_int (slider_maximum w) * buffer
            then (let max_spin = real_of_int spinner_value * increment;
                      max_spin = (if max_spin \<ge> real_of_int (spin_maximum w)
                                  then real_of_int (spin_maximum w) else max_spin)
                  in slider_setRange n (slider_minimum w) (py_int max_spin) w)
            else Some w) of
        None \<Rightarrow> None
      | Some w1 \<Rightarrow>
          if spin_minimum w1 < 0
             \<and> real_of_int spinner_value \<le> real_of_int (slider_minimum w1) * buffer
          then (let negative_spin = real_of_int spinner_value * increment;
                    negative_spin = (if negative_spin \<le> real_of_int (spin_minimum w1)
                                     then real_of_int (spin_minimum w1) else negative_spin)
                in slider_setRange n (py_int negative_spin) (slider_maximum w1) w1)
          else Some w1)"

text \<open>
  The angle box holds a float between its minimum and maximum. The script leaves the
  box at the toolkit's two decimals, so a value set is first rounded to the nearest
  hundredth (a tie goes up here) and then bounded.
\<close>

record double_spin_box =
  double_value :: real
  double_minimum :: real
  double_maximum :: real

definition round_decimals :: "real \<Rightarrow> real" where
  "round_decimals v = real_of_int (round (v * 100)) / 100"

definition double_spin_box_setValue :: "real \<Rightarrow> double_spin_box \<Rightarrow> double_spin_box" where
  "double_spin_box_setValue v b =
     b\<lparr>double_value := max (double_minimum b) (min (double_maximum b) (round_decimals v))\<rparr>"

section \<open>The tool\<close>

text \<open>
  The attributes of \<^verbatim>\<open>CreateTurntable\<close>, the widgets the actions read, and the
  scene the actions work on.
\<close>

record turntable_ui =
  turntable_field :: "nat option"
  camera_field :: "nat option"
  group_field :: "nat option"
  camera_distance :: int
  camera_height :: int
  angle_interval :: real
  camera_distance_controls :: linked_controls
  camera_height_controls :: linked_controls
  turntable_rotation_double_spin_box :: double_spin_box
  apply_push_button_enabled :: bool
  maya :: scene

text \<open>The panel as \<^verbatim>\<open>__init__\<close> and \<^verbatim>\<open>initialize_UI\<close> leave it, over a scene.\<close>

definition initialize_UI :: "scene \<Rightarrow> turntable_ui" where
  "initialize_UI sc =
     \<lparr>turntable_field = None, camera_field = None, group_field = None,
      camera_distance = 5, camera_height = 2, angle_interval = 75 / 100,
      camera_distance_controls =
        \<lparr>spin_value = 5, spin_minimum = 0, spin_maximum = 2147483647,
         slider_value = 5, slider_minimum = 0, slider_maximum = 60\<rparr>,
      camera_height_controls =
        \<lparr>spin_value = 2, spin_minimum = - 2147483647, spin_maximum = 2147483647,
         slider_value = 2, slider_minimum = - 20, slider_maximum = 40\<rparr>,
      turntable_rotation_double_spin_box =
        \<lparr>double_value = 75 / 100, double_minimum = - 90, double_maximum = 90\<rparr>,
      apply_push_button_enabled = False,
      maya = sc\<rparr>"

text \<open>
  An action either returns or raises; the state it has reached is kept in both cases,
  as Python keeps what was done before an exception.
\<close>

datatype 'a outcome = Returned 'a | Raised error 'a

fun outcome_state :: "'a outcome \<Rightarrow> 'a" where
  "outcome_state (Returned s) = s"
| "outcome_state (Raised e s) = s"

fun has_returned :: "'a outcome \<Rightarrow> bool" where
  "has_returned (Returned s) = True"
| "has_returned (Raised e s) = False"

definition host :: "(scene \<Rightarrow> error + scene) \<Rightarrow> turntable_ui \<Rightarrow> turntable_ui outcome" where
  "host f s = (case f (maya s) of Inl e \<Rightarrow> Raised e s | Inr sc \<Rightarrow> Returned (s\<lparr>maya := sc\<rparr>))"

text \<open>Statements in sequence: the first that raises ends the run.\<close>

fun run :: "('a \<Rightarrow> 'a outcome) list \<Rightarrow> 'a \<Rightarrow> 'a outcome" where
  "run [] s = Returned s"
| "run (f # fs) s = (case f s of Returned s' \<Rightarrow> run fs s' | Raised e s' \<Rightarrow> Raised e s')"

definition update_setting_values :: "turntable_ui \<Rightarrow> turntable_ui" where
  "update_setting_values s =
     s\<lparr>camera_distance := spin_value (camera_distance_controls s),
       camera_height := spin_value (camera_height_controls s),
       angle_interval := double_value (turntable_rotation_double_spin_box s)\<rparr>"

text \<open>
  Line 359: \<^verbatim>\<open>end_time = ((360-self.angle_interval)/self.angle_interval) + (start_time-1)\<close>.
  Python raises on a float division by zero.
\<close>

definition end_time_of :: "real \<Rightarrow> real \<Rightarrow> error + real" where
  "end_time_of start_time a =
     (if a = 0 then Inl ZeroDivisionError else Inr (((360 - a) / a) + (start_time - 1)))"

definition set_rotation :: "nat \<Rightarrow> turntable_ui \<Rightarrow> turntable_ui outcome" where
  "set_rotation rotator s =
     (let start_time = minTime (maya s) in
      case end_time_of start_time (angle_interval s) of
        Inl e \<Rightarrow> Raised e s
      | Inr end_time \<Rightarrow>
          run [host (playbackOptions_maxTime end_time),
               (\<lambda>s. if animationEndTime (maya s) < end_time
                    then host (playbackOptions_animationEndTime end_time) s
                    else Returned s),
               host (cutKey rotator (start_time, end_time) ''rotateY''),
               host (setKeyframe rotator start_time ''rotateY'' 0),
               host (setKeyframe rotator end_time ''rotateY'' (end_time * angle_interval s)),
               host (selectKey rotator (start_time, end_time) ''rotateY''),
               host (\<lambda>sc. Inr (keyTangent Linear Linear sc))] s)"

text \<open>
  \<^verbatim>\<open>create_button_on_clicked\<close>. The three name fields are recorded as the objects
  are made; the names the script reads back from them are the objects themselves.
\<close>

definition create_button_on_clicked :: "turntable_ui \<Rightarrow> turntable_ui outcome" where
  "create_button_on_clicked s0 =
     (let s1 = update_setting_values s0;
          (turntable_name, sc1) = polySphere (maya s1);
          s2 = s1\<lparr>maya := sc1, turntable_field := Some turntable_name\<rparr>;
          (camera_name, sc2) =
             camera (0, real_of_int (camera_height s2), real_of_int (camera_distance s2)) (maya s2);
          s3 = s2\<lparr>maya := sc2, camera_field := Some camera_name\<rparr>;
          (rotator_name, sc3) = group_empty (maya s3);
          s4 = s3\<lparr>maya := sc3, group_field := Some rotator_name\<rparr>
      in run [host (parent_relative camera_name rotator_name),
              host (parent_relative rotator_name turntable_name),
              set_rotation rotator_name,
              (\<lambda>s. Returned (s\<lparr>apply_push_button_enabled := True\<rparr>))] s4)"

text \<open>
  \<^verbatim>\<open>apply_button_on_clicked\<close>. Reading a name field that was never made fails;
  the panel cannot get there, since only Create enables the Apply button.
\<close>

definition apply_button_on_clicked :: "turntable_ui \<Rightarrow> turntable_ui outcome" where
  "apply_button_on_clicked s0 =
     (let s1 = update_setting_values s0 in
      case group_field s1 of
        None \<Rightarrow> Raised NoSuchControl s1
      | Some rotator_name \<Rightarrow>
          (case camera_field s1 of
             None \<Rightarrow> Raised NoSuchControl s1
           | Some camera_name \<Rightarrow>
               if objExists (maya s1) camera_name \<and> objExists (maya s1) rotator_name
               then run [host (setAttr_translateY camera_name (real_of_int (camera_height s1))),
                         host (setAttr_translateZ camera_name (real_of_int (camera_distance s1))),
                         set_rotation rotator_name] s1
               else create_button_on_clicked s1))"

text \<open>What the user can do to the scene meanwhile: delete an object.\<close>

definition delete_node :: "nat \<Rightarrow> scene \<Rightarrow> scene" where
  "delete_node i sc = sc\<lparr>nodes := (nodes sc)[i := None]\<rparr>"

text \<open>A new scene of the host: nothing in it, playback from 1 to 120 within 1 to 200.\<close>

definition new_scene :: scene where
  "new_scene =
     \<lparr>nodes = [], minTime = 1, maxTime = 120, animationEndTime = 200,
      selected_keys = (\<lambda>j a t. False), default_tangent = Auto\<rparr>"

text \<open>The keys of a channel of an object; an object that is gone has none.\<close>

definition keyframes :: "scene \<Rightarrow> nat \<Rightarrow> string \<Rightarrow> anim_curve" where
  "keyframes sc i attr = (case lookup_node sc i of None \<Rightarrow> (\<lambda>t. None) | Some nd \<Rightarrow> anim nd attr)"

text \<open>A scene that holds one empty group, and the panel freshly opened over it.\<close>

definition group_scene :: scene where
  "group_scene = snd (group_empty new_scene)"

definition fresh_panel :: turntable_ui where
  "fresh_panel = initialize_UI group_scene"

text \<open>The same panel over a scene whose playback range already runs to frame 1000.\<close>

definition long_playback_panel :: turntable_ui where
  "long_playback_panel =
     fresh_panel\<lparr>maya := (maya fresh_panel)\<lparr>maxTime := 1000, animationEndTime := 1000\<rparr>\<rparr>"

text \<open>
  The rotation channel as \<^verbatim>\<open>set_rotation\<close> leaves it, before the tangents are set:
  the keys of the range cut, then the two keys put in, the later one last.
\<close>

definition rotation_curve :: "real \<Rightarrow> real \<Rightarrow> real \<Rightarrow> tangent_type \<Rightarrow> anim_curve \<Rightarrow> anim_curve" where
  "rotation_curve T0 T1 a d c =
     ((cut_range T0 T1 c)
        (T0 \<mapsto> \<lparr>key_value = 0, inTangentType = d, outTangentType = d\<rparr>))
        (T1 \<mapsto> \<lparr>key_value = T1 * a, inTangentType = d, outTangentType = d\<rparr>)"

text \<open>The same channel once the keys of the range have been given linear tangents.\<close>

definition relinearized :: "real \<Rightarrow> real \<Rightarrow> real \<Rightarrow> tangent_type \<Rightarrow> anim_curve \<Rightarrow> anim_curve" where
  "relinearized T0 T1 a d c =
     retangent Linear Linear (\<lambda>t. T0 \<le> t \<and> t \<le> T1 \<and> rotation_curve T0 T1 a d c t \<noteq> None)
       (rotation_curve T0 T1 a d c)"

text \<open>
  The state \<^verbatim>\<open>set_rotation\<close> returns for a rotator \<open>nd\<close> at \<open>r\<close>, written out; the
  lemma \<open>set_rotation_rotated\<close> below derives it from the definition.
\<close>

definition rotated :: "nat \<Rightarrow> node \<Rightarrow> turntable_ui \<Rightarrow> turntable_ui" where
  "rotated r nd s =
     (let T0 = minTime (maya s);
          a = angle_interval s;
          T1 = (360 - a) / a + (T0 - 1);
          d = default_tangent (maya s)
      in s\<lparr>maya := (maya s)\<lparr>maxTime := T1,
             animationEndTime := max (animationEndTime (maya s)) T1,
             nodes := (nodes (maya s))[r := Some (nd\<lparr>anim := (anim nd)
                        (''rotateY'' := relinearized T0 T1 a d (anim nd ''rotateY''))\<rparr>)],
             selected_keys := (\<lambda>j x t. j = r \<and> x = ''rotateY'' \<and> T0 \<le> t \<and> t \<le> T1
                        \<and> rotation_curve T0 T1 a d (anim nd ''rotateY'') t \<noteq> None)\<rparr>\<rparr>)"

text \<open>
  The state \<^verbatim>\<open>create_button_on_clicked\<close> has reached when it calls
  \<^verbatim>\<open>set_rotation\<close>, written out; \<open>create_as_built_rig\<close> below derives it.
\<close>

definition built_rig :: "turntable_ui \<Rightarrow> turntable_ui" where
  "built_rig s0 =
     (let s1 = update_setting_values s0;
          n = length (nodes (maya s1))
      in s1\<lparr>turntable_field := Some n, camera_field := Some (n + 1), group_field := Some (n + 2),
            maya := (maya s1)\<lparr>nodes := nodes (maya s1) @
              [Some (new_node PolySphere 0 0 0),
               Some ((new_node Camera 0 (real_of_int (camera_height s1)) (real_of_int (camera_distance s1)))
                       \<lparr>parent_of := Some (n + 2)\<rparr>),
               Some ((new_node EmptyGroup 0 0 0)\<lparr>parent_of := Some n\<rparr>)]\<rparr>\<rparr>)"

text \<open>The camera and the group of that rig.\<close>

definition rig_group :: "turntable_ui \<Rightarrow> node" where
  "rig_group s = (new_node EmptyGroup 0 0 0)\<lparr>parent_of := Some (length (nodes (maya s)))\<rparr>"

definition rig_camera :: "turntable_ui \<Rightarrow> node" where
  "rig_camera s =
     (new_node Camera 0 (real_of_int (spin_value (camera_height_controls s)))
        (real_of_int (spin_value (camera_distance_controls s))))
       \<lparr>parent_of := Some (length (nodes (maya s)) + 2)\<rparr>"

text \<open>The error an action ended with, if it raised.\<close>

fun raised_error :: "'a outcome \<Rightarrow> error option" where
  "raised_error (Returned s) = None"
| "raised_error (Raised e s) = Some e"

text \<open>
  Panels for the examples: one opened over a new scene; that panel after Create; the
  same after the user has deleted the camera (object 1 of the rig); and panels whose
  angle box has been set to 0, before Create and after the camera was deleted.
\<close>

definition new_panel :: turntable_ui where
  "new_panel = initialize_UI new_scene"

definition created_panel :: turntable_ui where
  "created_panel = outcome_state (create_button_on_clicked new_panel)"

definition camera_deleted_panel :: turntable_ui where
  "camera_deleted_panel = created_panel\<lparr>maya := delete_node 1 (maya created_panel)\<rparr>"

definition zero_angle_panel :: turntable_ui where
  "zero_angle_panel =
     new_panel\<lparr>turntable_rotation_double_spin_box :=
       double_spin_box_setValue 0 (turntable_rotation_double_spin_box new_panel)\<rparr>"

definition camera_deleted_zero_angle_panel :: turntable_ui where
  "camera_deleted_zero_angle_panel =
     camera_deleted_panel\<lparr>turntable_rotation_double_spin_box :=
       double_spin_box_setValue 0 (turntable_rotation_double_spin_box camera_deleted_panel)\<rparr>"

text \<open>
  The state Apply has reached when it calls \<^verbatim>\<open>set_rotation\<close>, for a camera \<open>cam\<close>
  at \<open>c\<close>, written out; \<open>apply_moves_camera\<close> below derives it.
\<close>

definition moved_camera :: "nat \<Rightarrow> node \<Rightarrow> turntable_ui \<Rightarrow> turntable_ui" where
  "moved_camera c cam s =
     (update_setting_values s)\<lparr>maya := (maya s)\<lparr>nodes := (nodes (maya s))
        [c := Some (cam\<lparr>translateY := real_of_int (spin_value (camera_height_controls s)),
                        translateZ := real_of_int (spin_value (camera_distance_controls s))\<rparr>)]\<rparr>\<rparr>"

text \<open>
  What the panel keeps true of a linked pair: the slider's range lies within the spin
  box's, holds 0 at or above its minimum and below its maximum, and holds the slider's
  value; and, between two changes, the two values are equal.
\<close>

definition ranges_ok :: "linked_controls \<Rightarrow> bool" where
  "ranges_ok w =
     (spin_minimum w \<le> slider_minimum w \<and> slider_minimum w \<le> 0 \<and> 0 < slider_maximum w
      \<and> slider_maximum w \<le> spin_maximum w
      \<and> slider_minimum w \<le> slider_value w \<and> slider_value w \<le> slider_maximum w)"

definition linked_ok :: "linked_controls \<Rightarrow> bool" where
  "linked_ok w = (ranges_ok w \<and> spin_value w = slider_value w)"

text \<open>
  The slider range \<^verbatim>\<open>on_value_changed\<close> leaves for a spin value \<open>v\<close>, and the pair
  once both widgets have taken \<open>v\<close>, written out; \<open>on_value_changed_ok\<close> and
  \<open>spin_box_changed\<close> below derive them.
\<close>

definition raised_maximum :: "int \<Rightarrow> linked_controls \<Rightarrow> int" where
  "raised_maximum v w =
     (if real_of_int v \<ge> real_of_int (slider_maximum w) * (98 / 100)
      then min (py_int (real_of_int v * (107 / 100))) (spin_maximum w)
      else slider_maximum w)"

definition lowered_minimum :: "int \<Rightarrow> linked_controls \<Rightarrow> int" where
  "lowered_minimum v w =
     (if spin_minimum w < 0 \<and> real_of_int v \<le> real_of_int (slider_minimum w) * (98 / 100)
      then max (py_int (real_of_int v * (107 / 100))) (spin_minimum w)
      else slider_minimum w)"

definition synced :: "int \<Rightarrow> linked_controls \<Rightarrow> linked_controls" where
  "synced v w =
     w\<lparr>spin_value := v, slider_value := v,
       slider_minimum := lowered_minimum v w, slider_maximum := raised_maximum v w\<rparr>"

text \<open>The distance pair of a new panel at the moment its spin box announces 60.\<close>

definition distance_controls_at_60 :: linked_controls where
  "distance_controls_at_60 = (camera_distance_controls new_panel)\<lparr>spin_value := 60\<rparr>"

text \<open>The one-group panel of above with the angle box set to -0.75 and the settings read.\<close>

definition negative_angle_panel :: turntable_ui where
  "negative_angle_panel =
     update_setting_values (fresh_panel\<lparr>turntable_rotation_double_spin_box :=
       double_spin_box_setValue (- 3 / 4) (turntable_rotation_double_spin_box fresh_panel)\<rparr>)"

section \<open>What the scene commands do\<close>

lemma round_decimals_examples [simp]:
  "round_decimals 0 = 0"
  "round_decimals (- (3 / 4)) = - (3 / 4)"
  by (simp_all add: round_decimals_def)

lemma lookup_node_update:
  "lookup_node (sc\<lparr>nodes := (nodes sc)[i := x]\<rparr>) j =
     (if j = i \<and> i < length (nodes sc) then x else lookup_node sc j)"
  by (simp add: lookup_node_def)

lemma lookup_node_length: "lookup_node sc i = Some nd \<Longrightarrow> i < length (nodes sc)"
  by (simp add: lookup_node_def split: if_splits)

lemma lookup_node_keyTangent:
  "lookup_node (keyTangent x y sc) i =
     (case lookup_node sc i of
        None \<Rightarrow> None
      | Some nd \<Rightarrow> Some (nd\<lparr>anim := (\<lambda>a. retangent x y (selected_keys sc i a) (anim nd a))\<rparr>))"
  by (simp add: lookup_node_def keyTangent_def retangent_node_def nth_enumerate_eq
      split: option.splits)

lemma keyTangent_fields [simp]:
  "maxTime (keyTangent x y sc) = maxTime sc"
  "minTime (keyTangent x y sc) = minTime sc"
  "animationEndTime (keyTangent x y sc) = animationEndTime sc"
  "selected_keys (keyTangent x y sc) = selected_keys sc"
  "default_tangent (keyTangent x y sc) = default_tangent sc"
  "length (nodes (keyTangent x y sc)) = length (nodes sc)"
  by (simp_all add: keyTangent_def)

section \<open>The rotation animation\<close>

text \<open>The three ways \<^verbatim>\<open>set_rotation\<close> ends, each with the state it leaves.\<close>

lemma set_rotation_zero:
  "angle_interval s = 0 \<Longrightarrow> set_rotation r s = Raised ZeroDivisionError s"
  by (simp add: set_rotation_def end_time_of_def)

lemma set_rotation_missing:
  assumes nd: "lookup_node (maya s) r = None"
    and a: "angle_interval s \<noteq> 0"
    and T0: "T0 = minTime (maya s)"
    and T1: "T1 = (360 - angle_interval s) / angle_interval s + (T0 - 1)"
  shows "set_rotation r s =
     Raised NoSuchObject (s\<lparr>maya := (maya s)\<lparr>maxTime := T1,
                  animationEndTime := max (animationEndTime (maya s)) T1\<rparr>\<rparr>)"
  using nd a
  unfolding T0 T1
  by (auto simp add: set_rotation_def end_time_of_def host_def playbackOptions_maxTime_def
      playbackOptions_animationEndTime_def cutKey_def
      update_node_def lookup_node_def max_def Let_def split: if_splits)

lemma set_rotation_Returned:
  assumes nd: "lookup_node (maya s) r = Some nd"
    and a: "angle_interval s \<noteq> 0"
    and T0: "T0 = minTime (maya s)"
    and T1: "T1 = (360 - angle_interval s) / angle_interval s + (T0 - 1)"
    and c: "c = rotation_curve T0 T1 (angle_interval s) (default_tangent (maya s)) (anim nd ''rotateY'')"
  shows "set_rotation r s =
     Returned (s\<lparr>maya := keyTangent Linear Linear
        ((maya s)\<lparr>maxTime := T1,
                  animationEndTime := max (animationEndTime (maya s)) T1,
                  nodes := (nodes (maya s))[r := Some (nd\<lparr>anim := (anim nd)(''rotateY'' := c)\<rparr>)],
                  selected_keys := (\<lambda>j a t. j = r \<and> a = ''rotateY'' \<and> T0 \<le> t \<and> t \<le> T1 \<and> c t \<noteq> None)\<rparr>)\<rparr>)"
  using nd a lookup_node_length[OF nd]
  unfolding T0 T1 c
  by (simp add: set_rotation_def end_time_of_def host_def playbackOptions_maxTime_def
      playbackOptions_animationEndTime_def cutKey_def setKeyframe_def selectKey_def
      update_node_def lookup_node_def rotation_curve_def max_def Let_def)

lemma keyframes_set_rotation:
  assumes nd: "lookup_node (maya s) r = Some nd"
    and a: "angle_interval s \<noteq> 0"
    and T0: "T0 = minTime (maya s)"
    and T1: "T1 = (360 - angle_interval s) / angle_interval s + (T0 - 1)"
    and c: "c = rotation_curve T0 T1 (angle_interval s) (default_tangent (maya s)) (anim nd ''rotateY'')"
  shows "keyframes (maya (outcome_state (set_rotation r s))) r ''rotateY''
           = retangent Linear Linear (\<lambda>t. T0 \<le> t \<and> t \<le> T1 \<and> c t \<noteq> None) c"
proof -
  let ?sc = "(maya s)\<lparr>maxTime := T1,
                  animationEndTime := max (animationEndTime (maya s)) T1,
                  nodes := (nodes (maya s))[r := Some (nd\<lparr>anim := (anim nd)(''rotateY'' := c)\<rparr>)],
                  selected_keys := (\<lambda>j a t. j = r \<and> a = ''rotateY'' \<and> T0 \<le> t \<and> t \<le> T1 \<and> c t \<noteq> None)\<rparr>"
  have l: "lookup_node ?sc r = Some (nd\<lparr>anim := (anim nd)(''rotateY'' := c)\<rparr>)"
    using lookup_node_length[OF nd] by (simp add: lookup_node_def)
  have "keyframes (keyTangent Linear Linear ?sc) r ''rotateY''
          = retangent Linear Linear (\<lambda>t. T0 \<le> t \<and> t \<le> T1 \<and> c t \<noteq> None) c"
    unfolding keyframes_def lookup_node_keyTangent l by simp
  then show ?thesis
    by (simp add: set_rotation_Returned[OF nd a T0 T1 c])
qed

lemma has_returned_set_rotation:
  "lookup_node (maya s) r = Some nd \<Longrightarrow> angle_interval s \<noteq> 0 \<Longrightarrow> has_returned (set_rotation r s)"
  by (simp add: set_rotation_Returned[OF _ _ refl refl refl])

lemma retangent_rotation_curve:
  assumes "T0 < T1"
  shows "retangent Linear Linear
           (\<lambda>t. T0 \<le> t \<and> t \<le> T1 \<and> rotation_curve T0 T1 a d c t \<noteq> None)
           (rotation_curve T0 T1 a d c)
         = (\<lambda>t. if t = T0 then Some \<lparr>key_value = 0, inTangentType = Linear, outTangentType = Linear\<rparr>
                else if t = T1 then Some \<lparr>key_value = T1 * a, inTangentType = Linear, outTangentType = Linear\<rparr>
                else if T0 < t \<and> t < T1 then None
                else c t)"
  using assms
  by (auto simp add: retangent_def rotation_curve_def cut_range_def fun_eq_iff split: option.splits)

lemma fresh_panel_facts:
  "lookup_node (maya fresh_panel) 0 = Some (new_node EmptyGroup 0 0 0)"
  "minTime (maya fresh_panel) = 1"
  "maxTime (maya fresh_panel) = 120"
  "animationEndTime (maya fresh_panel) = 200"
  "angle_interval fresh_panel = 3 / 4"
  "default_tangent (maya fresh_panel) = Auto"
  by (simp_all add: fresh_panel_def initialize_UI_def group_scene_def group_empty_def
      create_node_def new_scene_def lookup_node_def)

lemma long_playback_panel_facts:
  "lookup_node (maya long_playback_panel) 0 = Some (new_node EmptyGroup 0 0 0)"
  "minTime (maya long_playback_panel) = 1"
  "maxTime (maya long_playback_panel) = 1000"
  "animationEndTime (maya long_playback_panel) = 1000"
  "angle_interval long_playback_panel = 3 / 4"
  by (simp_all add: long_playback_panel_def fresh_panel_def initialize_UI_def group_scene_def
      group_empty_def create_node_def new_scene_def lookup_node_def)

lemma playback_set_rotation:
  assumes "end_time_of (minTime (maya s)) (angle_interval s) = Inr T1"
  shows "maxTime (maya (outcome_state (set_rotation rotator s))) = T1"
    and "animationEndTime (maya (outcome_state (set_rotation rotator s)))
           = max (animationEndTime (maya s)) T1"
    and "minTime (maya (outcome_state (set_rotation rotator s))) = minTime (maya s)"
proof -
  have nz: "angle_interval s \<noteq> 0"
    using assms by (auto simp: end_time_of_def split: if_splits)
  have T1: "T1 = (360 - angle_interval s) / angle_interval s + (minTime (maya s) - 1)"
    using assms nz by (simp add: end_time_of_def)
  show "maxTime (maya (outcome_state (set_rotation rotator s))) = T1"
    by (cases "lookup_node (maya s) rotator")
      (simp_all add: set_rotation_missing[OF _ nz refl T1] set_rotation_Returned[OF _ nz refl T1 refl])
  show "animationEndTime (maya (outcome_state (set_rotation rotator s)))
           = max (animationEndTime (maya s)) T1"
    by (cases "lookup_node (maya s) rotator")
      (simp_all add: set_rotation_missing[OF _ nz refl T1] set_rotation_Returned[OF _ nz refl T1 refl])
  show "minTime (maya (outcome_state (set_rotation rotator s))) = minTime (maya s)"
    by (cases "lookup_node (maya s) rotator")
      (simp_all add: set_rotation_missing[OF _ nz refl T1] set_rotation_Returned[OF _ nz refl T1 refl])
qed

lemma retangent_none [simp]: "retangent x y (\<lambda>t. False) c = c"
  by (auto simp: retangent_def fun_eq_iff split: option.splits)

lemma keyTangent_single:
  assumes nd: "lookup_node sc r = Some nd"
    and sel: "selected_keys sc = (\<lambda>j a t. j = r \<and> a = attr \<and> P t)"
  shows "keyTangent x y sc =
     sc\<lparr>nodes := (nodes sc)[r := Some (nd\<lparr>anim := (anim nd)(attr := retangent x y P (anim nd attr))\<rparr>)]\<rparr>"
proof -
  have r: "r < length (nodes sc)" "nodes sc ! r = Some nd"
    using nd by (auto simp: lookup_node_def split: if_splits)
  have "map (retangent_node x y (selected_keys sc)) (enumerate 0 (nodes sc))
      = (nodes sc)[r := Some (nd\<lparr>anim := (anim nd)(attr := retangent x y P (anim nd attr))\<rparr>)]"
  proof (rule nth_equalityI)
    show "length (map (retangent_node x y (selected_keys sc)) (enumerate 0 (nodes sc)))
        = length ((nodes sc)[r := Some (nd\<lparr>anim := (anim nd)(attr := retangent x y P (anim nd attr))\<rparr>)])"
      by simp
  next
    fix i
    assume "i < length (map (retangent_node x y (selected_keys sc)) (enumerate 0 (nodes sc)))"
    then have i: "i < length (nodes sc)" by simp
    show "map (retangent_node x y (selected_keys sc)) (enumerate 0 (nodes sc)) ! i
        = (nodes sc)[r := Some (nd\<lparr>anim := (anim nd)(attr := retangent x y P (anim nd attr))\<rparr>)] ! i"
    proof (cases "i = r")
      case True
      have "(\<lambda>a. retangent x y (\<lambda>t. a = attr \<and> P t) (anim nd a))
          = (anim nd)(attr := retangent x y P (anim nd attr))"
        by (auto simp: fun_eq_iff)
      then show ?thesis
        using i r True by (simp add: nth_enumerate_eq retangent_node_def sel)
    next
      case False
      then show ?thesis
        using i by (simp add: nth_enumerate_eq retangent_node_def sel split: option.splits)
    qed
  qed
  then show ?thesis by (simp add: keyTangent_def)
qed

text \<open>The curve with linear tangents on the keys of the range.\<close>

lemma set_rotation_Returned_nodes:
  assumes nd: "lookup_node (maya s) r = Some nd"
    and a: "angle_interval s \<noteq> 0"
    and T0: "T0 = minTime (maya s)"
    and T1: "T1 = (360 - angle_interval s) / angle_interval s + (T0 - 1)"
    and c: "c = rotation_curve T0 T1 (angle_interval s) (default_tangent (maya s)) (anim nd ''rotateY'')"
    and c': "c' = retangent Linear Linear (\<lambda>t. T0 \<le> t \<and> t \<le> T1 \<and> c t \<noteq> None) c"
  shows "set_rotation r s =
     Returned (s\<lparr>maya := (maya s)\<lparr>maxTime := T1,
                  animationEndTime := max (animationEndTime (maya s)) T1,
                  nodes := (nodes (maya s))[r := Some (nd\<lparr>anim := (anim nd)(''rotateY'' := c')\<rparr>)],
                  selected_keys := (\<lambda>j a t. j = r \<and> a = ''rotateY'' \<and> T0 \<le> t \<and> t \<le> T1 \<and> c t \<noteq> None)\<rparr>\<rparr>)"
proof -
  let ?sc = "(maya s)\<lparr>maxTime := T1,
                  animationEndTime := max (animationEndTime (maya s)) T1,
                  nodes := (nodes (maya s))[r := Some (nd\<lparr>anim := (anim nd)(''rotateY'' := c)\<rparr>)],
                  selected_keys := (\<lambda>j a t. j = r \<and> a = ''rotateY'' \<and> T0 \<le> t \<and> t \<le> T1 \<and> c t \<noteq> None)\<rparr>"
  have l: "lookup_node ?sc r = Some (nd\<lparr>anim := (anim nd)(''rotateY'' := c)\<rparr>)"
    using lookup_node_length[OF nd] by (simp add: lookup_node_def)
  have s: "selected_keys ?sc = (\<lambda>j a t. j = r \<and> a = ''rotateY'' \<and> (T0 \<le> t \<and> t \<le> T1 \<and> c t \<noteq> None))"
    by simp
  show ?thesis
    unfolding set_rotation_Returned[OF nd a T0 T1 c] keyTangent_single[OF l s] c'
    by simp
qed

lemma relinearized_idem:
  "relinearized T0 T1 a d (relinearized T0 T1 a d c) = relinearized T0 T1 a d c"
  by (auto simp add: relinearized_def retangent_def rotation_curve_def cut_range_def fun_eq_iff
      split: option.splits)

lemma relinearized_dom:
  "(rotation_curve T0 T1 a d (relinearized T0 T1 a d c) t \<noteq> None)
     = (rotation_curve T0 T1 a d c t \<noteq> None)"
  by (auto simp add: relinearized_def retangent_def rotation_curve_def cut_range_def
      split: option.splits)

lemma relinearized_dom_ex:
  "(\<exists>y. rotation_curve T0 T1 a d (relinearized T0 T1 a d c) t = Some y)
     = (\<exists>y. rotation_curve T0 T1 a d c t = Some y)"
  using relinearized_dom[of T0 T1 a d c t] by simp

lemma set_rotation_rotated:
  assumes "lookup_node (maya s) r = Some nd" and "angle_interval s \<noteq> 0"
  shows "set_rotation r s = Returned (rotated r nd s)"
  unfolding set_rotation_Returned_nodes[OF assms refl refl refl refl]
  by (simp add: rotated_def relinearized_def Let_def)

lemma rotated_fields [simp]:
  "minTime (maya (rotated r nd s)) = minTime (maya s)"
  "default_tangent (maya (rotated r nd s)) = default_tangent (maya s)"
  "angle_interval (rotated r nd s) = angle_interval s"
  "camera_distance (rotated r nd s) = camera_distance s"
  "camera_height (rotated r nd s) = camera_height s"
  "camera_distance_controls (rotated r nd s) = camera_distance_controls s"
  "camera_height_controls (rotated r nd s) = camera_height_controls s"
  "turntable_rotation_double_spin_box (rotated r nd s) = turntable_rotation_double_spin_box s"
  "turntable_field (rotated r nd s) = turntable_field s"
  "camera_field (rotated r nd s) = camera_field s"
  "group_field (rotated r nd s) = group_field s"
  "apply_push_button_enabled (rotated r nd s) = apply_push_button_enabled s"
  "length (nodes (maya (rotated r nd s))) = length (nodes (maya s))"
  by (simp_all add: rotated_def Let_def)

lemma lookup_node_rotated:
  "lookup_node (maya s) r = Some nd \<Longrightarrow>
   lookup_node (maya (rotated r nd s)) j =
     (if j = r
      then Some (nd\<lparr>anim := (anim nd)(''rotateY'' :=
             relinearized (minTime (maya s)) ((360 - angle_interval s) / angle_interval s + (minTime (maya s) - 1))
               (angle_interval s) (default_tangent (maya s)) (anim nd ''rotateY''))\<rparr>)
      else lookup_node (maya s) j)"
  by (auto simp add: rotated_def Let_def lookup_node_def split: if_splits)

lemma rotated_flag:
  "rotated r nd (s\<lparr>apply_push_button_enabled := b\<rparr>) = (rotated r nd s)\<lparr>apply_push_button_enabled := b\<rparr>"
  by (simp add: rotated_def Let_def)

lemma rotated_idem:
  assumes nd: "lookup_node (maya s) r = Some nd"
    and nd': "lookup_node (maya (rotated r nd s)) r = Some nd'"
  shows "rotated r nd' (rotated r nd s) = rotated r nd s"
proof -
  have r: "r < length (nodes (maya s))" using lookup_node_length[OF nd] .
  have e: "nd' = nd\<lparr>anim := (anim nd)(''rotateY'' :=
             relinearized (minTime (maya s)) ((360 - angle_interval s) / angle_interval s + (minTime (maya s) - 1))
               (angle_interval s) (default_tangent (maya s)) (anim nd ''rotateY''))\<rparr>"
    using nd' by (simp add: lookup_node_rotated[OF nd])
  show ?thesis
    unfolding e
    by (simp add: rotated_def Let_def relinearized_idem relinearized_dom_ex)
qed

lemma negative_angle_panel_facts:
  "lookup_node (maya negative_angle_panel) 0 = Some (new_node EmptyGroup 0 0 0)"
  "minTime (maya negative_angle_panel) = 1"
  "angle_interval negative_angle_panel = - 3 / 4"
  "default_tangent (maya negative_angle_panel) = Auto"
  by (simp_all add: negative_angle_panel_def update_setting_values_def double_spin_box_setValue_def
      fresh_panel_def initialize_UI_def group_scene_def group_empty_def create_node_def
      new_scene_def lookup_node_def)

text \<open>
  C1. For an angle interval in \<open>(0, 90]\<close> the end time that \<^verbatim>\<open>set_rotation\<close>
  computes from the playback start time \<open>T0\<close> is \<open>T0 - 1 + (360 - a) / a\<close>; it is
  the playback maximum the call leaves, and it is later than \<open>T0\<close>.
\<close>

theorem set_rotation_end_time:
  assumes "0 < angle_interval s" and "angle_interval s \<le> 90"
  shows "end_time_of (minTime (maya s)) (angle_interval s)
           = Inr (minTime (maya s) - 1 + (360 - angle_interval s) / angle_interval s)
       \<and> maxTime (maya (outcome_state (set_rotation rotator s)))
           = minTime (maya s) - 1 + (360 - angle_interval s) / angle_interval s
       \<and> minTime (maya s) < minTime (maya s) - 1 + (360 - angle_interval s) / angle_interval s"
proof -
  let ?a = "angle_interval s"
  let ?T0 = "minTime (maya s)"
  have nz: "?a \<noteq> 0" using assms by simp
  have e: "end_time_of ?T0 ?a = Inr (?T0 - 1 + (360 - ?a) / ?a)"
    using nz by (simp add: end_time_of_def)
  have m: "maxTime (maya (outcome_state (set_rotation rotator s))) = ?T0 - 1 + (360 - ?a) / ?a"
  proof (cases "lookup_node (maya s) rotator")
    case None
    show ?thesis
      by (simp add: set_rotation_missing[OF None nz refl refl])
  next
    case (Some nd)
    show ?thesis
      by (simp add: set_rotation_Returned[OF Some nz refl refl refl])
  qed
  have "3 * ?a \<le> 360 - ?a" using assms by simp
  then have "3 \<le> (360 - ?a) / ?a"
    using assms(1) by (simp add: pos_le_divide_eq)
  then have g: "?T0 < ?T0 - 1 + (360 - ?a) / ?a" by simp
  from e m g show ?thesis by simp
qed

theorem set_rotation_end_time_witness:
  "end_time_of 1 (3 / 4) = Inr 479
   \<and> maxTime (maya (outcome_state (set_rotation 0 fresh_panel))) = 479
   \<and> (1::real) < 479"
  using set_rotation_end_time[of fresh_panel 0]
  by (simp add: fresh_panel_def initialize_UI_def group_scene_def group_empty_def
      create_node_def new_scene_def)

text \<open>
  C2, as amended. With the playback starting at frame 1, an angle interval \<open>a\<close> in
  \<open>(0, 90]\<close> and a rotator in the scene, \<^verbatim>\<open>set_rotation\<close> returns; the key at the
  start has value 0 and the key at the end time has the value of line 368, the end
  time times \<open>a\<close>, which in exact arithmetic is \<open>360 - a\<close>: one step short of a
  revolution. Other start frames are left out here.
\<close>

theorem set_rotation_revolution:
  assumes "objExists (maya s) rotator" and "minTime (maya s) = 1"
    and "0 < angle_interval s" and "angle_interval s \<le> 90"
  shows "has_returned (set_rotation rotator s)
       \<and> map_option key_value
           (keyframes (maya (outcome_state (set_rotation rotator s))) rotator ''rotateY'' 1) = Some 0
       \<and> map_option key_value
           (keyframes (maya (outcome_state (set_rotation rotator s))) rotator ''rotateY''
              (maxTime (maya (outcome_state (set_rotation rotator s)))))
           = Some (maxTime (maya (outcome_state (set_rotation rotator s))) * angle_interval s)
       \<and> maxTime (maya (outcome_state (set_rotation rotator s))) * angle_interval s
           = 360 - angle_interval s"
proof -
  let ?a = "angle_interval s"
  define T1 where "T1 = (360 - ?a) / ?a + (minTime (maya s) - 1)"
  obtain nd where nd: "lookup_node (maya s) rotator = Some nd"
    using assms(1) by (auto simp: objExists_def)
  have nz: "?a \<noteq> 0" using assms by simp
  have e: "end_time_of (minTime (maya s)) ?a = Inr T1"
    using nz by (simp add: end_time_of_def T1_def)
  have "3 * ?a \<le> 360 - ?a" using assms by simp
  then have "3 \<le> (360 - ?a) / ?a"
    using assms(3) by (simp add: pos_le_divide_eq)
  then have lt: "minTime (maya s) < T1" by (simp add: T1_def)
  have v: "T1 * ?a = 360 - ?a"
    using nz assms(2) by (simp add: T1_def)
  have k: "keyframes (maya (outcome_state (set_rotation rotator s))) rotator ''rotateY''
        = retangent Linear Linear
            (\<lambda>t. minTime (maya s) \<le> t \<and> t \<le> T1
               \<and> rotation_curve (minTime (maya s)) T1 ?a (default_tangent (maya s))
                    (anim nd ''rotateY'') t \<noteq> None)
            (rotation_curve (minTime (maya s)) T1 ?a (default_tangent (maya s)) (anim nd ''rotateY''))"
    by (rule keyframes_set_rotation[OF nd nz refl T1_def refl])
  have m: "maxTime (maya (outcome_state (set_rotation rotator s))) = T1"
    by (rule playback_set_rotation(1)[OF e])
  have ne: "T1 \<noteq> 1" using lt assms(2) by simp
  show ?thesis
    unfolding k retangent_rotation_curve[OF lt] m
    using has_returned_set_rotation[OF nd nz] ne assms(2) by (simp add: v)
qed

theorem set_rotation_revolution_witness:
  "objExists (maya fresh_panel) 0 \<and> minTime (maya fresh_panel) = 1
   \<and> has_returned (set_rotation 0 fresh_panel)
   \<and> map_option key_value
        (keyframes (maya (outcome_state (set_rotation 0 fresh_panel))) 0 ''rotateY'' 1) = Some 0
   \<and> maxTime (maya (outcome_state (set_rotation 0 fresh_panel))) = 479
   \<and> map_option key_value
        (keyframes (maya (outcome_state (set_rotation 0 fresh_panel))) 0 ''rotateY'' 479)
        = Some (1437 / 4)"
proof -
  have e: "objExists (maya fresh_panel) 0"
    by (simp add: objExists_def fresh_panel_facts)
  have t: "end_time_of (minTime (maya fresh_panel)) (angle_interval fresh_panel) = Inr 479"
    by (simp add: fresh_panel_facts end_time_of_def)
  have m: "maxTime (maya (outcome_state (set_rotation 0 fresh_panel))) = 479"
    by (rule playback_set_rotation(1)[OF t])
  show ?thesis
    using e m set_rotation_revolution[OF e fresh_panel_facts(2)] by (simp add: fresh_panel_facts)
qed

text \<open>
  C2 as the specification states it fails on its own example: with a start time of 1
  and an angle interval of 0.75 the end time is 479, not 480, the key there has
  \<^verbatim>\<open>rotateY\<close> 359.25, not 360, and there is no key at 480.
\<close>

theorem set_rotation_example_ends_at_479:
  "minTime (maya fresh_panel) = 1 \<and> angle_interval fresh_panel = 3 / 4
   \<and> maxTime (maya (outcome_state (set_rotation 0 fresh_panel))) = 479
   \<and> keyframes (maya (outcome_state (set_rotation 0 fresh_panel))) 0 ''rotateY'' 479
        = Some \<lparr>key_value = 1437 / 4, inTangentType = Linear, outTangentType = Linear\<rparr>
   \<and> keyframes (maya (outcome_state (set_rotation 0 fresh_panel))) 0 ''rotateY'' 480 = None
   \<and> (1437 / 4 - 0 :: real) \<noteq> 360"
proof -
  have t: "end_time_of (minTime (maya fresh_panel)) (angle_interval fresh_panel) = Inr 479"
    by (simp add: fresh_panel_facts end_time_of_def)
  have nz: "angle_interval fresh_panel \<noteq> 0" by (simp add: fresh_panel_facts)
  have T1: "(479::real) = (360 - angle_interval fresh_panel) / angle_interval fresh_panel
      + (minTime (maya fresh_panel) - 1)"
    by (simp add: fresh_panel_facts)
  have lt: "minTime (maya fresh_panel) < 479" by (simp add: fresh_panel_facts)
  show ?thesis
    unfolding keyframes_set_rotation[OF fresh_panel_facts(1) nz refl T1 refl]
      retangent_rotation_curve[OF lt] playback_set_rotation(1)[OF t]
    by (simp add: fresh_panel_facts new_node_def)
qed

text \<open>
  C3, as amended. Whatever the playback range was, after \<^verbatim>\<open>set_rotation\<close> the playback
  maximum is the end time \<open>T1\<close>; the animation end time is the larger of its previous
  value and \<open>T1\<close>, so it is only ever extended; the playback minimum is untouched.
\<close>

theorem set_rotation_playback_range:
  assumes "end_time_of (minTime (maya s)) (angle_interval s) = Inr T1"
  shows "maxTime (maya (outcome_state (set_rotation rotator s))) = T1
       \<and> animationEndTime (maya (outcome_state (set_rotation rotator s)))
           = max (animationEndTime (maya s)) T1
       \<and> minTime (maya (outcome_state (set_rotation rotator s))) = minTime (maya s)"
  using playback_set_rotation[OF assms] by simp

theorem set_rotation_playback_range_witness:
  "end_time_of (minTime (maya long_playback_panel)) (angle_interval long_playback_panel) = Inr 479
   \<and> maxTime (maya (outcome_state (set_rotation 0 long_playback_panel))) = 479
   \<and> animationEndTime (maya (outcome_state (set_rotation 0 long_playback_panel))) = 1000
   \<and> minTime (maya (outcome_state (set_rotation 0 long_playback_panel))) = 1"
proof -
  have t: "end_time_of (minTime (maya long_playback_panel)) (angle_interval long_playback_panel) = Inr 479"
    by (simp add: long_playback_panel_facts end_time_of_def)
  show ?thesis
    using t set_rotation_playback_range[OF t, of 0] by (simp add: long_playback_panel_facts)
qed

text \<open>
  C3 as the specification states it fails: a playback range that ran to frame 1000 is
  shortened to 479, which is not the larger of the two.
\<close>

theorem set_rotation_shortens_playback:
  "maxTime (maya long_playback_panel) = 1000
   \<and> maxTime (maya (outcome_state (set_rotation 0 long_playback_panel))) = 479
   \<and> max (maxTime (maya long_playback_panel)) 479 \<noteq> (479::real)"
proof -
  have t: "end_time_of (minTime (maya long_playback_panel)) (angle_interval long_playback_panel) = Inr 479"
    by (simp add: long_playback_panel_facts end_time_of_def)
  show ?thesis
    using playback_set_rotation(1)[OF t, of 0] by (simp add: long_playback_panel_facts)
qed

text \<open>
  C4, as amended. When the rotator is in the scene and the end time \<open>T1\<close> is later than the start
  time \<open>T0\<close>, \<^verbatim>\<open>set_rotation\<close> returns and leaves on the \<^verbatim>\<open>rotateY\<close> channel of
  the rotator, within \<open>[T0, T1]\<close>, exactly two keys: one at \<open>T0\<close> with value 0 and one
  at \<open>T1\<close> with value \<open>T1 * a\<close>, both with linear tangents. Every key that stood
  strictly between them is gone, and the keys outside the range are as they were.
\<close>

theorem set_rotation_keys:
  assumes "objExists (maya s) rotator"
    and "end_time_of (minTime (maya s)) (angle_interval s) = Inr T1"
    and "minTime (maya s) < T1"
  shows "has_returned (set_rotation rotator s)
       \<and> keyframes (maya (outcome_state (set_rotation rotator s))) rotator ''rotateY''
           = (\<lambda>t. if t = minTime (maya s)
                  then Some \<lparr>key_value = 0, inTangentType = Linear, outTangentType = Linear\<rparr>
                  else if t = T1
                  then Some \<lparr>key_value = T1 * angle_interval s, inTangentType = Linear,
                             outTangentType = Linear\<rparr>
                  else if minTime (maya s) < t \<and> t < T1 then None
                  else keyframes (maya s) rotator ''rotateY'' t)"
proof -
  obtain nd where nd: "lookup_node (maya s) rotator = Some nd"
    using assms(1) by (auto simp: objExists_def)
  have nz: "angle_interval s \<noteq> 0"
    using assms(2) by (auto simp: end_time_of_def split: if_splits)
  have T1: "T1 = (360 - angle_interval s) / angle_interval s + (minTime (maya s) - 1)"
    using assms(2) nz by (simp add: end_time_of_def)
  have old: "keyframes (maya s) rotator ''rotateY'' = anim nd ''rotateY''"
    by (simp add: keyframes_def nd)
  show ?thesis
    unfolding keyframes_set_rotation[OF nd nz refl T1 refl] old
    using has_returned_set_rotation[OF nd nz] retangent_rotation_curve[OF assms(3)]
    by simp
qed

theorem set_rotation_keys_witness:
  "objExists (maya fresh_panel) 0
   \<and> end_time_of (minTime (maya fresh_panel)) (angle_interval fresh_panel) = Inr 479
   \<and> has_returned (set_rotation 0 fresh_panel)
   \<and> keyframes (maya (outcome_state (set_rotation 0 fresh_panel))) 0 ''rotateY'' 1
        = Some \<lparr>key_value = 0, inTangentType = Linear, outTangentType = Linear\<rparr>
   \<and> keyframes (maya (outcome_state (set_rotation 0 fresh_panel))) 0 ''rotateY'' 479
        = Some \<lparr>key_value = 1437 / 4, inTangentType = Linear, outTangentType = Linear\<rparr>
   \<and> keyframes (maya (outcome_state (set_rotation 0 fresh_panel))) 0 ''rotateY'' 240 = None"
proof -
  have e: "objExists (maya fresh_panel) 0"
    by (simp add: fresh_panel_def initialize_UI_def group_scene_def group_empty_def
      create_node_def new_scene_def objExists_def lookup_node_def)
  have t: "end_time_of (minTime (maya fresh_panel)) (angle_interval fresh_panel) = Inr 479"
    by (simp add: fresh_panel_def initialize_UI_def group_scene_def group_empty_def
      create_node_def new_scene_def end_time_of_def)
  have l: "minTime (maya fresh_panel) < 479"
    by (simp add: fresh_panel_def initialize_UI_def group_scene_def group_empty_def
      create_node_def new_scene_def)
  have m: "minTime (maya fresh_panel) = 1" "angle_interval fresh_panel = 3 / 4"
    by (simp_all add: fresh_panel_def initialize_UI_def group_scene_def group_empty_def
      create_node_def new_scene_def)
  show ?thesis
    using e t set_rotation_keys[OF e t l] by (simp add: m)
qed

text \<open>
  C4 as the specification states it fails for the negative angles the box admits: the
  end time is then before the start time, the range handed to the host is reversed
  and holds no key, and both keys keep the tangents the host gave them. At -0.75 the
  keys stand at 1 and -481 with \<open>Auto\<close> tangents.
\<close>

theorem set_rotation_reversed_range:
  "objExists (maya negative_angle_panel) 0
   \<and> angle_interval negative_angle_panel = - 3 / 4
   \<and> minTime (maya negative_angle_panel) = 1
   \<and> end_time_of (minTime (maya negative_angle_panel)) (angle_interval negative_angle_panel)
        = Inr (- 481)
   \<and> has_returned (set_rotation 0 negative_angle_panel)
   \<and> keyframes (maya (outcome_state (set_rotation 0 negative_angle_panel))) 0 ''rotateY'' 1
        = Some \<lparr>key_value = 0, inTangentType = Auto, outTangentType = Auto\<rparr>
   \<and> keyframes (maya (outcome_state (set_rotation 0 negative_angle_panel))) 0 ''rotateY'' (- 481)
        = Some \<lparr>key_value = 1443 / 4, inTangentType = Auto, outTangentType = Auto\<rparr>"
proof -
  have nz: "angle_interval negative_angle_panel \<noteq> 0"
    by (simp add: negative_angle_panel_facts)
  have T1: "(- 481::real) = (360 - angle_interval negative_angle_panel)
      / angle_interval negative_angle_panel + (minTime (maya negative_angle_panel) - 1)"
    by (simp add: negative_angle_panel_facts)
  have k: "keyframes (maya (outcome_state (set_rotation 0 negative_angle_panel))) 0 ''rotateY''
      = retangent Linear Linear
          (\<lambda>t. minTime (maya negative_angle_panel) \<le> t \<and> t \<le> - 481
             \<and> rotation_curve (minTime (maya negative_angle_panel)) (- 481)
                  (angle_interval negative_angle_panel) (default_tangent (maya negative_angle_panel))
                  (anim (new_node EmptyGroup 0 0 0) ''rotateY'') t \<noteq> None)
          (rotation_curve (minTime (maya negative_angle_panel)) (- 481)
             (angle_interval negative_angle_panel) (default_tangent (maya negative_angle_panel))
             (anim (new_node EmptyGroup 0 0 0) ''rotateY''))"
    by (rule keyframes_set_rotation[OF negative_angle_panel_facts(1) nz refl T1 refl])
  show ?thesis
    unfolding k
    using has_returned_set_rotation[OF negative_angle_panel_facts(1) nz]
    by (simp add: negative_angle_panel_facts objExists_def end_time_of_def retangent_def
        rotation_curve_def cut_range_def)
qed

section \<open>Create and Apply\<close>

lemma create_as_built_rig:
  "create_button_on_clicked s0 =
     run [set_rotation (length (nodes (maya s0)) + 2),
          (\<lambda>s. Returned (s\<lparr>apply_push_button_enabled := True\<rparr>))] (built_rig s0)"
  by (simp add: create_button_on_clicked_def built_rig_def update_setting_values_def
      polySphere_def camera_def group_empty_def create_node_def host_def parent_relative_def
      objExists_def lookup_node_def update_node_def nth_append list_update_append Let_def)

lemma built_rig_lookup:
  "lookup_node (maya (built_rig s)) j =
     (if j < length (nodes (maya s)) then nodes (maya s) ! j
      else if j = length (nodes (maya s)) then Some (new_node PolySphere 0 0 0)
      else if j = length (nodes (maya s)) + 1 then Some (rig_camera s)
      else if j = length (nodes (maya s)) + 2 then Some (rig_group s)
      else None)"
  by (auto simp add: built_rig_def update_setting_values_def lookup_node_def Let_def nth_append
      rig_camera_def rig_group_def nth_Cons')

lemma built_rig_fields [simp]:
  "angle_interval (built_rig s) = double_value (turntable_rotation_double_spin_box s)"
  "camera_distance (built_rig s) = spin_value (camera_distance_controls s)"
  "camera_height (built_rig s) = spin_value (camera_height_controls s)"
  "camera_distance_controls (built_rig s) = camera_distance_controls s"
  "camera_height_controls (built_rig s) = camera_height_controls s"
  "turntable_rotation_double_spin_box (built_rig s) = turntable_rotation_double_spin_box s"
  "turntable_field (built_rig s) = Some (length (nodes (maya s)))"
  "camera_field (built_rig s) = Some (length (nodes (maya s)) + 1)"
  "group_field (built_rig s) = Some (length (nodes (maya s)) + 2)"
  "apply_push_button_enabled (built_rig s) = apply_push_button_enabled s"
  "minTime (maya (built_rig s)) = minTime (maya s)"
  "maxTime (maya (built_rig s)) = maxTime (maya s)"
  "animationEndTime (maya (built_rig s)) = animationEndTime (maya s)"
  "default_tangent (maya (built_rig s)) = default_tangent (maya s)"
  "length (nodes (maya (built_rig s))) = length (nodes (maya s)) + 3"
  by (simp_all add: built_rig_def update_setting_values_def Let_def)

lemma create_Raised:
  assumes "double_value (turntable_rotation_double_spin_box s) = 0"
  shows "create_button_on_clicked s = Raised ZeroDivisionError (built_rig s)"
  using assms by (simp add: create_as_built_rig set_rotation_zero)

lemma create_Returned:
  assumes "double_value (turntable_rotation_double_spin_box s) \<noteq> 0"
  shows "create_button_on_clicked s =
     Returned ((rotated (length (nodes (maya s)) + 2) (rig_group s) (built_rig s))
                 \<lparr>apply_push_button_enabled := True\<rparr>)"
proof -
  have l: "lookup_node (maya (built_rig s)) (length (nodes (maya s)) + 2) = Some (rig_group s)"
    by (simp add: built_rig_lookup)
  have a: "angle_interval (built_rig s) \<noteq> 0" using assms by simp
  show ?thesis
    using set_rotation_rotated[OF l a] by (simp add: create_as_built_rig)
qed

lemma update_node_same:
  "lookup_node sc i = Some nd \<Longrightarrow> f nd = nd \<Longrightarrow> update_node i f sc = Inr sc"
proof -
  assume l: "lookup_node sc i = Some nd" and f: "f nd = nd"
  have "nodes sc ! i = Some nd" using l by (simp add: lookup_node_def split: if_splits)
  then have "(nodes sc)[i := Some nd] = nodes sc" by (metis list_update_id)
  then show ?thesis using l f by (simp add: update_node_def)
qed

lemma update_setting_values_idem [simp]:
  "update_setting_values (update_setting_values s) = update_setting_values s"
  by (simp add: update_setting_values_def)

lemma create_update_setting_values [simp]:
  "create_button_on_clicked (update_setting_values s) = create_button_on_clicked s"
  by (simp add: create_button_on_clicked_def)

lemma update_setting_values_fields [simp]:
  "maya (update_setting_values s) = maya s"
  "group_field (update_setting_values s) = group_field s"
  "camera_field (update_setting_values s) = camera_field s"
  "turntable_field (update_setting_values s) = turntable_field s"
  "camera_height (update_setting_values s) = spin_value (camera_height_controls s)"
  "camera_distance (update_setting_values s) = spin_value (camera_distance_controls s)"
  "angle_interval (update_setting_values s) = double_value (turntable_rotation_double_spin_box s)"
  "apply_push_button_enabled (update_setting_values s) = apply_push_button_enabled s"
  by (simp_all add: update_setting_values_def)

lemma apply_missing:
  assumes "camera_field s = Some c" and "group_field s = Some g"
    and "\<not> (objExists (maya s) c \<and> objExists (maya s) g)"
  shows "apply_button_on_clicked s = create_button_on_clicked s"
  using assms by (auto simp add: apply_button_on_clicked_def Let_def)

lemma apply_existing:
  assumes "camera_field s = Some c" and "group_field s = Some g"
    and "objExists (maya s) c" and "objExists (maya s) g"
  shows "apply_button_on_clicked s =
     run [host (setAttr_translateY c (real_of_int (spin_value (camera_height_controls s)))),
          host (setAttr_translateZ c (real_of_int (spin_value (camera_distance_controls s)))),
          set_rotation g] (update_setting_values s)"
  using assms by (simp add: apply_button_on_clicked_def Let_def)

lemma update_setting_values_id:
  assumes "spin_value (camera_distance_controls s) = camera_distance s"
    and "spin_value (camera_height_controls s) = camera_height s"
    and "double_value (turntable_rotation_double_spin_box s) = angle_interval s"
  shows "update_setting_values s = s"
  using assms by (simp add: update_setting_values_def)

lemma built_rig_settled: "update_setting_values (built_rig s) = built_rig s"
  by (rule update_setting_values_id) simp_all

lemma rotated_built_rig_settled:
  "update_setting_values ((rotated r nd (built_rig s))\<lparr>apply_push_button_enabled := b\<rparr>)
     = (rotated r nd (built_rig s))\<lparr>apply_push_button_enabled := b\<rparr>"
  by (rule update_setting_values_id) simp_all

lemma host_same: "f (maya s) = Inr (maya s) \<Longrightarrow> host f s = Returned s"
  by (simp add: host_def)

lemma rig_camera_fields [simp]:
  "translateY (rig_camera s) = real_of_int (spin_value (camera_height_controls s))"
  "translateZ (rig_camera s) = real_of_int (spin_value (camera_distance_controls s))"
  "translateX (rig_camera s) = 0"
  "kind (rig_camera s) = Camera"
  "parent_of (rig_camera s) = Some (length (nodes (maya s)) + 2)"
  "anim (rig_camera s) = (\<lambda>a t. None)"
  by (simp_all add: rig_camera_def new_node_def)

lemma apply_on_rig:
  assumes st: "update_setting_values st = st"
    and cf: "camera_field st = Some c" and gf: "group_field st = Some g"
    and cam: "lookup_node (maya st) c = Some cam"
    and ty: "translateY cam = real_of_int (spin_value (camera_height_controls st))"
    and tz: "translateZ cam = real_of_int (spin_value (camera_distance_controls st))"
    and grp: "lookup_node (maya st) g = Some grp"
  shows "apply_button_on_clicked st = set_rotation g st"
proof -
  have ex: "objExists (maya st) c" "objExists (maya st) g"
    using cam grp by (simp_all add: objExists_def)
  have y: "host (setAttr_translateY c (real_of_int (spin_value (camera_height_controls st)))) st
         = Returned st"
    by (rule host_same) (simp add: setAttr_translateY_def update_node_same[OF cam] ty)
  have z: "host (setAttr_translateZ c (real_of_int (spin_value (camera_distance_controls st)))) st
         = Returned st"
    by (rule host_same) (simp add: setAttr_translateZ_def update_node_same[OF cam] tz)
  show ?thesis
    unfolding apply_existing[OF cf gf ex] st
    by (simp add: y z split: outcome.splits)
qed

lemma relinearized_empty_values:
  "map_option key_value \<circ> relinearized T0 T1 a d (\<lambda>t. None) = [T0 \<mapsto> 0, T1 \<mapsto> T1 * a]"
  by (auto simp add: relinearized_def retangent_def rotation_curve_def cut_range_def fun_eq_iff
      split: option.splits)

lemma keyframes_rotated:
  assumes "lookup_node (maya s) r = Some nd"
  shows "keyframes (maya (rotated r nd s)) r ''rotateY''
     = relinearized (minTime (maya s)) ((360 - angle_interval s) / angle_interval s + (minTime (maya s) - 1))
         (angle_interval s) (default_tangent (maya s)) (anim nd ''rotateY'')"
  by (simp add: keyframes_def lookup_node_rotated[OF assms])

lemma rig_group_fields [simp]:
  "kind (rig_group s) = EmptyGroup"
  "parent_of (rig_group s) = Some (length (nodes (maya s)))"
  "anim (rig_group s) = (\<lambda>a t. None)"
  "translateX (rig_group s) = 0" "translateY (rig_group s) = 0" "translateZ (rig_group s) = 0"
  by (simp_all add: rig_group_def new_node_def)

lemma new_panel_facts:
  "nodes (maya new_panel) = []"
  "minTime (maya new_panel) = 1"
  "default_tangent (maya new_panel) = Auto"
  "spin_value (camera_height_controls new_panel) = 2"
  "spin_value (camera_distance_controls new_panel) = 5"
  "double_value (turntable_rotation_double_spin_box new_panel) = 3 / 4"
  "apply_push_button_enabled new_panel = False"
  by (simp_all add: new_panel_def initialize_UI_def new_scene_def)

lemma zero_angle_panel_facts:
  "double_value (turntable_rotation_double_spin_box zero_angle_panel) = 0"
  "apply_push_button_enabled zero_angle_panel = False"
  "nodes (maya zero_angle_panel) = []"
  by (simp_all add: zero_angle_panel_def new_panel_def initialize_UI_def new_scene_def
      double_spin_box_setValue_def)

lemma moved_camera_fields [simp]:
  "angle_interval (moved_camera c cam s) = double_value (turntable_rotation_double_spin_box s)"
  "minTime (maya (moved_camera c cam s)) = minTime (maya s)"
  "default_tangent (maya (moved_camera c cam s)) = default_tangent (maya s)"
  "length (nodes (maya (moved_camera c cam s))) = length (nodes (maya s))"
  by (simp_all add: moved_camera_def)

lemma lookup_node_moved_camera:
  "lookup_node (maya s) c = Some cam \<Longrightarrow>
   lookup_node (maya (moved_camera c cam s)) j =
     (if j = c
      then Some (cam\<lparr>translateY := real_of_int (spin_value (camera_height_controls s)),
                      translateZ := real_of_int (spin_value (camera_distance_controls s))\<rparr>)
      else lookup_node (maya s) j)"
  by (auto simp add: moved_camera_def lookup_node_def split: if_splits)

lemma apply_moves_camera:
  assumes cf: "camera_field s = Some c" and gf: "group_field s = Some g"
    and cam: "lookup_node (maya s) c = Some cam"
    and grp: "lookup_node (maya s) g = Some grp"
  shows "apply_button_on_clicked s = set_rotation g (moved_camera c cam s)"
proof -
  have ex: "objExists (maya s) c" "objExists (maya s) g"
    using cam grp by (simp_all add: objExists_def)
  have len: "c < length (nodes (maya s))" by (rule lookup_node_length[OF cam])
  show ?thesis
    unfolding apply_existing[OF cf gf ex]
    using cam len
    by (simp add: host_def setAttr_translateY_def setAttr_translateZ_def update_node_def
        lookup_node_def moved_camera_def split: outcome.splits)
qed

lemma created_panel_eq:
  "created_panel = (rotated 2 (rig_group new_panel) (built_rig new_panel))\<lparr>apply_push_button_enabled := True\<rparr>"
proof -
  have nz: "double_value (turntable_rotation_double_spin_box new_panel) \<noteq> 0"
    by (simp add: new_panel_facts)
  show ?thesis
    using create_Returned[OF nz] by (simp add: created_panel_def new_panel_facts numeral_2_eq_2)
qed

lemma created_panel_facts:
  "camera_field created_panel = Some 1"
  "group_field created_panel = Some 2"
  "double_value (turntable_rotation_double_spin_box created_panel) = 3 / 4"
  "spin_value (camera_height_controls created_panel) = 2"
  "spin_value (camera_distance_controls created_panel) = 5"
  "length (nodes (maya created_panel)) = 3"
  by (simp_all add: created_panel_eq new_panel_facts)

lemma created_panel_objects:
  "objExists (maya created_panel) 1" "objExists (maya created_panel) 2"
proof -
  have g0: "lookup_node (maya (built_rig new_panel)) 2 = Some (rig_group new_panel)"
    by (simp add: built_rig_lookup new_panel_facts)
  show "objExists (maya created_panel) 1" "objExists (maya created_panel) 2"
    by (simp_all add: objExists_def created_panel_eq lookup_node_rotated[OF g0]
        built_rig_lookup new_panel_facts)
qed

lemma camera_deleted_panel_facts:
  "camera_field camera_deleted_panel = Some 1"
  "group_field camera_deleted_panel = Some 2"
  "double_value (turntable_rotation_double_spin_box camera_deleted_panel) = 3 / 4"
  "\<not> objExists (maya camera_deleted_panel) 1"
  by (simp_all add: camera_deleted_panel_def created_panel_facts delete_node_def objExists_def
      lookup_node_def)

lemma camera_deleted_zero_angle_panel_facts:
  "camera_field camera_deleted_zero_angle_panel = Some 1"
  "group_field camera_deleted_zero_angle_panel = Some 2"
  "double_value (turntable_rotation_double_spin_box camera_deleted_zero_angle_panel) = 0"
  "\<not> objExists (maya camera_deleted_zero_angle_panel) 1"
  using camera_deleted_panel_facts
  by (simp_all add: camera_deleted_zero_angle_panel_def double_spin_box_setValue_def
      camera_deleted_panel_def created_panel_eq new_panel_facts new_panel_def initialize_UI_def)

text \<open>
  C7. Create and then Apply, with the settings untouched in between, ends as Create
  ended and leaves the state Create left: the camera where it was, the keys of the
  rotation with their times, values and tangents, and everything else.
\<close>

theorem create_then_apply:
  "apply_button_on_clicked (outcome_state (create_button_on_clicked s)) = create_button_on_clicked s"
proof (cases "double_value (turntable_rotation_double_spin_box s) = 0")
  case True
  let ?n = "length (nodes (maya s))"
  have c: "create_button_on_clicked s = Raised ZeroDivisionError (built_rig s)"
    by (rule create_Raised[OF True])
  have "apply_button_on_clicked (built_rig s) = set_rotation (?n + 2) (built_rig s)"
    by (rule apply_on_rig[where c = "?n + 1" and cam = "rig_camera s" and grp = "rig_group s"])
      (simp_all add: built_rig_settled built_rig_lookup)
  also have "\<dots> = Raised ZeroDivisionError (built_rig s)"
    using True by (simp add: set_rotation_zero)
  finally show ?thesis by (simp add: c)
next
  case False
  define r where "r = length (nodes (maya s)) + 2"
  define c where "c = length (nodes (maya s)) + 1"
  let ?r = "rotated r (rig_group s) (built_rig s)"
  let ?s' = "?r\<lparr>apply_push_button_enabled := True\<rparr>"
  have cr: "create_button_on_clicked s = Returned ?s'"
    unfolding r_def by (rule create_Returned[OF False])
  have g0: "lookup_node (maya (built_rig s)) r = Some (rig_group s)"
    by (simp add: built_rig_lookup r_def)
  have "lookup_node (maya ?r) r \<noteq> None"
    by (simp add: lookup_node_rotated[OF g0])
  then obtain grp where grp: "lookup_node (maya ?r) r = Some grp"
    by blast
  have ne: "c \<noteq> r" by (simp add: r_def c_def)
  have "lookup_node (maya (built_rig s)) c = Some (rig_camera s)"
    by (simp add: built_rig_lookup c_def)
  then have cam: "lookup_node (maya ?r) c = Some (rig_camera s)"
    by (simp add: lookup_node_rotated[OF g0] ne)
  have nz: "angle_interval ?s' \<noteq> 0" using False by simp
  have "apply_button_on_clicked ?s' = set_rotation r ?s'"
    by (rule apply_on_rig[where c = c and cam = "rig_camera s" and grp = grp])
      (simp_all add: rotated_built_rig_settled cam grp, simp_all add: r_def c_def)
  also have "\<dots> = Returned (rotated r grp ?s')"
    using nz by (intro set_rotation_rotated) (simp_all add: grp)
  also have "rotated r grp ?s' = ?s'"
    by (simp add: rotated_flag rotated_idem[OF g0 grp])
  finally show ?thesis by (simp add: cr)
qed

theorem create_then_apply_witness:
  "apply_button_on_clicked (outcome_state (create_button_on_clicked new_panel))
     = create_button_on_clicked new_panel"
  using create_then_apply[of new_panel] .

text \<open>
  C6, as amended. When the angle box does not hold 0, Create returns, and with \<open>n\<close>
  objects in the scene before: the objects that were there are untouched; object \<open>n\<close>
  is a sphere at the origin; object \<open>n + 1\<close> is a camera at
  \<open>(0, camera_height, camera_distance)\<close>, a child of object \<open>n + 2\<close>; object
  \<open>n + 2\<close> is an empty group, a child of the sphere, keyed on \<^verbatim>\<open>rotateY\<close> with 0
  at the start time and \<open>T1 * a\<close> at the end time \<open>T1\<close>; the Apply button is enabled;
  the three fields record the three objects.
\<close>

theorem create_button_builds_rig:
  assumes "double_value (turntable_rotation_double_spin_box s) \<noteq> 0"
  shows "has_returned (create_button_on_clicked s)
    \<and> (let s' = outcome_state (create_button_on_clicked s);
            n = length (nodes (maya s));
            h = real_of_int (spin_value (camera_height_controls s));
            d = real_of_int (spin_value (camera_distance_controls s));
            a = double_value (turntable_rotation_double_spin_box s);
            T0 = minTime (maya s);
            T1 = (360 - a) / a + (T0 - 1)
        in take n (nodes (maya s')) = nodes (maya s)
         \<and> length (nodes (maya s')) = n + 3
         \<and> lookup_node (maya s') n = Some (new_node PolySphere 0 0 0)
         \<and> lookup_node (maya s') (n + 1) = Some ((new_node Camera 0 h d)\<lparr>parent_of := Some (n + 2)\<rparr>)
         \<and> map_option kind (lookup_node (maya s') (n + 2)) = Some EmptyGroup
         \<and> map_option parent_of (lookup_node (maya s') (n + 2)) = Some (Some n)
         \<and> map_option key_value \<circ> keyframes (maya s') (n + 2) ''rotateY'' = [T0 \<mapsto> 0, T1 \<mapsto> T1 * a]
         \<and> apply_push_button_enabled s'
         \<and> turntable_field s' = Some n \<and> camera_field s' = Some (n + 1) \<and> group_field s' = Some (n + 2))"
proof -
  define n where "n = length (nodes (maya s))"
  define r where "r = n + 2"
  define c where "c = n + 1"
  let ?s' = "(rotated r (rig_group s) (built_rig s))\<lparr>apply_push_button_enabled := True\<rparr>"
  have cr: "create_button_on_clicked s = Returned ?s'"
    unfolding r_def n_def by (rule create_Returned[OF assms])
  have g0: "lookup_node (maya (built_rig s)) r = Some (rig_group s)"
    by (simp add: built_rig_lookup r_def n_def)
  have ne: "c \<noteq> r" "n \<noteq> r" by (simp_all add: r_def c_def)
  have sph: "lookup_node (maya ?s') n = Some (new_node PolySphere 0 0 0)"
    using ne by (simp add: lookup_node_rotated[OF g0] built_rig_lookup n_def)
  have "lookup_node (maya (built_rig s)) c = Some (rig_camera s)"
    by (simp add: built_rig_lookup c_def n_def)
  then have cam: "lookup_node (maya ?s') c = Some (rig_camera s)"
    using ne by (simp add: lookup_node_rotated[OF g0])
  have grp: "map_option kind (lookup_node (maya ?s') r) = Some EmptyGroup"
       "map_option parent_of (lookup_node (maya ?s') r) = Some (Some n)"
    by (simp_all add: lookup_node_rotated[OF g0] n_def)
  have keys: "map_option key_value \<circ> keyframes (maya ?s') r ''rotateY''
      = [minTime (maya s) \<mapsto> 0,
         ((360 - double_value (turntable_rotation_double_spin_box s))
            / double_value (turntable_rotation_double_spin_box s) + (minTime (maya s) - 1))
          \<mapsto> ((360 - double_value (turntable_rotation_double_spin_box s))
            / double_value (turntable_rotation_double_spin_box s) + (minTime (maya s) - 1))
             * double_value (turntable_rotation_double_spin_box s)]"
    using keyframes_rotated[OF g0] by (simp add: relinearized_empty_values)
  have tk: "take n (nodes (maya ?s')) = nodes (maya s)"
    by (simp add: rotated_def Let_def built_rig_def n_def r_def)
  have len: "length (nodes (maya ?s')) = n + 3"
    by (simp add: n_def)
  have flds: "apply_push_button_enabled ?s'" "turntable_field ?s' = Some n"
      "camera_field ?s' = Some c" "group_field ?s' = Some r"
    by (simp_all add: n_def c_def r_def)
  show ?thesis
    unfolding cr Let_def outcome_state.simps has_returned.simps
    using sph cam grp keys tk len flds
    unfolding r_def c_def n_def
    by (simp add: rig_camera_def)
qed

theorem create_button_builds_rig_witness:
  "double_value (turntable_rotation_double_spin_box new_panel) \<noteq> 0
   \<and> has_returned (create_button_on_clicked new_panel)
   \<and> length (nodes (maya created_panel)) = 3
   \<and> lookup_node (maya created_panel) 0 = Some (new_node PolySphere 0 0 0)
   \<and> lookup_node (maya created_panel) 1 = Some ((new_node Camera 0 2 5)\<lparr>parent_of := Some 2\<rparr>)
   \<and> map_option kind (lookup_node (maya created_panel) 2) = Some EmptyGroup
   \<and> map_option parent_of (lookup_node (maya created_panel) 2) = Some (Some 0)
   \<and> map_option key_value \<circ> keyframes (maya created_panel) 2 ''rotateY'' = [1 \<mapsto> 0, 479 \<mapsto> 1437 / 4]
   \<and> apply_push_button_enabled created_panel
   \<and> turntable_field created_panel = Some 0 \<and> camera_field created_panel = Some 1
   \<and> group_field created_panel = Some 2"
proof -
  have nz: "double_value (turntable_rotation_double_spin_box new_panel) \<noteq> 0"
    by (simp add: new_panel_facts)
  show ?thesis
    using nz create_button_builds_rig[OF nz]
    by (simp add: new_panel_facts created_panel_def Let_def numeral_2_eq_2)
qed

text \<open>
  C6 as the specification states it fails for the settings whose angle interval is 0,
  which the angle box admits: Create makes the three objects and then raises on the
  division, leaving the group without keys and the Apply button disabled.
\<close>

theorem create_button_zero_angle:
  "double_value (turntable_rotation_double_spin_box zero_angle_panel) = 0
   \<and> raised_error (create_button_on_clicked zero_angle_panel) = Some ZeroDivisionError
   \<and> \<not> has_returned (create_button_on_clicked zero_angle_panel)
   \<and> \<not> apply_push_button_enabled (outcome_state (create_button_on_clicked zero_angle_panel))
   \<and> objExists (maya (outcome_state (create_button_on_clicked zero_angle_panel))) 2
   \<and> keyframes (maya (outcome_state (create_button_on_clicked zero_angle_panel))) 2 ''rotateY'' 1 = None"
  by (simp add: create_Raised[OF zero_angle_panel_facts(1)] zero_angle_panel_facts
      objExists_def keyframes_def built_rig_lookup)

text \<open>
  C5, as amended. With a camera and a group recorded: when either is gone from the
  scene, Apply is Create, outcome and state, and returns when the angle box does not
  hold 0. When both are there and the angle box does not hold 0, Apply returns, makes
  no object, sets \<^verbatim>\<open>translateY\<close> and \<^verbatim>\<open>translateZ\<close> of the camera to the height
  and distance settings and leaves the rest of the camera alone, and leaves on the
  group the rotation keys that \<^verbatim>\<open>set_rotation\<close> makes of the keys it had.
\<close>

theorem apply_button_fallback:
  assumes "camera_field s = Some c" and "group_field s = Some g"
  shows "(\<not> (objExists (maya s) c \<and> objExists (maya s) g) \<longrightarrow>
            apply_button_on_clicked s = create_button_on_clicked s
          \<and> (double_value (turntable_rotation_double_spin_box s) \<noteq> 0 \<longrightarrow>
                has_returned (apply_button_on_clicked s)))
       \<and> (objExists (maya s) c \<and> objExists (maya s) g
            \<and> double_value (turntable_rotation_double_spin_box s) \<noteq> 0 \<longrightarrow>
            has_returned (apply_button_on_clicked s)
          \<and> (let s' = outcome_state (apply_button_on_clicked s)
              in length (nodes (maya s')) = length (nodes (maya s))
               \<and> map_option translateY (lookup_node (maya s') c)
                    = Some (real_of_int (spin_value (camera_height_controls s)))
               \<and> map_option translateZ (lookup_node (maya s') c)
                    = Some (real_of_int (spin_value (camera_distance_controls s)))
               \<and> map_option translateX (lookup_node (maya s') c)
                    = map_option translateX (lookup_node (maya s) c)
               \<and> map_option parent_of (lookup_node (maya s') c)
                    = map_option parent_of (lookup_node (maya s) c)
               \<and> map_option kind (lookup_node (maya s') c)
                    = map_option kind (lookup_node (maya s) c)
               \<and> keyframes (maya s') g ''rotateY''
                    = keyframes (maya (outcome_state (set_rotation g (update_setting_values s))))
                        g ''rotateY''))"
proof (intro conjI impI)
  assume m: "\<not> (objExists (maya s) c \<and> objExists (maya s) g)"
  show e: "apply_button_on_clicked s = create_button_on_clicked s"
    by (rule apply_missing[OF assms m])
  assume "double_value (turntable_rotation_double_spin_box s) \<noteq> 0"
  then show "has_returned (apply_button_on_clicked s)"
    by (simp add: e create_Returned)
next
  assume h: "objExists (maya s) c \<and> objExists (maya s) g
            \<and> double_value (turntable_rotation_double_spin_box s) \<noteq> 0"
  obtain cam grp where cam: "lookup_node (maya s) c = Some cam"
      and grp: "lookup_node (maya s) g = Some grp"
    using h by (auto simp: objExists_def)
  let ?m = "moved_camera c cam s"
  have "lookup_node (maya ?m) g \<noteq> None"
    by (simp add: lookup_node_moved_camera[OF cam] grp)
  then obtain nd where nd: "lookup_node (maya ?m) g = Some nd" by blast
  have an: "anim nd = anim grp"
    using nd cam grp by (auto simp add: lookup_node_moved_camera[OF cam] split: if_splits)
  have nz: "angle_interval ?m \<noteq> 0" using h by simp
  have ap: "apply_button_on_clicked s = Returned (rotated g nd ?m)"
    by (simp add: apply_moves_camera[OF assms cam grp] set_rotation_rotated[OF nd nz])
  show "has_returned (apply_button_on_clicked s)" by (simp add: ap)
  have g': "lookup_node (maya (update_setting_values s)) g = Some grp"
    by (simp add: grp)
  have nz': "angle_interval (update_setting_values s) \<noteq> 0" using h by simp
  have direct: "keyframes (maya (outcome_state (set_rotation g (update_setting_values s)))) g ''rotateY''
      = relinearized (minTime (maya s))
          ((360 - double_value (turntable_rotation_double_spin_box s))
             / double_value (turntable_rotation_double_spin_box s) + (minTime (maya s) - 1))
          (double_value (turntable_rotation_double_spin_box s)) (default_tangent (maya s))
          (anim grp ''rotateY'')"
    using keyframes_rotated[OF g'] by (simp add: set_rotation_rotated[OF g' nz'])
  show "let s' = outcome_state (apply_button_on_clicked s)
        in length (nodes (maya s')) = length (nodes (maya s))
         \<and> map_option translateY (lookup_node (maya s') c)
              = Some (real_of_int (spin_value (camera_height_controls s)))
         \<and> map_option translateZ (lookup_node (maya s') c)
              = Some (real_of_int (spin_value (camera_distance_controls s)))
         \<and> map_option translateX (lookup_node (maya s') c)
              = map_option translateX (lookup_node (maya s) c)
         \<and> map_option parent_of (lookup_node (maya s') c)
              = map_option parent_of (lookup_node (maya s) c)
         \<and> map_option kind (lookup_node (maya s') c)
              = map_option kind (lookup_node (maya s) c)
         \<and> keyframes (maya s') g ''rotateY''
              = keyframes (maya (outcome_state (set_rotation g (update_setting_values s))))
                  g ''rotateY''"
    unfolding ap outcome_state.simps Let_def direct
    using nd cam
    by (auto simp add: lookup_node_rotated[OF nd] keyframes_rotated[OF nd] an
        lookup_node_moved_camera[OF cam] split: if_splits)
qed

theorem apply_button_fallback_witness:
  "camera_field camera_deleted_panel = Some 1 \<and> group_field camera_deleted_panel = Some 2
   \<and> \<not> (objExists (maya camera_deleted_panel) 1 \<and> objExists (maya camera_deleted_panel) 2)
   \<and> apply_button_on_clicked camera_deleted_panel = create_button_on_clicked camera_deleted_panel
   \<and> has_returned (apply_button_on_clicked camera_deleted_panel)
   \<and> camera_field created_panel = Some 1 \<and> group_field created_panel = Some 2
   \<and> objExists (maya created_panel) 1 \<and> objExists (maya created_panel) 2
   \<and> has_returned (apply_button_on_clicked created_panel)
   \<and> length (nodes (maya (outcome_state (apply_button_on_clicked created_panel)))) = 3
   \<and> map_option translateY (lookup_node (maya (outcome_state (apply_button_on_clicked created_panel))) 1)
        = Some 2
   \<and> map_option translateZ (lookup_node (maya (outcome_state (apply_button_on_clicked created_panel))) 1)
        = Some 5"
proof -
  have m: "\<not> (objExists (maya camera_deleted_panel) 1 \<and> objExists (maya camera_deleted_panel) 2)"
    using camera_deleted_panel_facts(4) by simp
  have nz: "double_value (turntable_rotation_double_spin_box camera_deleted_panel) \<noteq> 0"
    by (simp add: camera_deleted_panel_facts(3))
  have d: "apply_button_on_clicked camera_deleted_panel = create_button_on_clicked camera_deleted_panel"
      "has_returned (apply_button_on_clicked camera_deleted_panel)"
    using apply_button_fallback[OF camera_deleted_panel_facts(1,2)] m nz by blast+
  have nz': "double_value (turntable_rotation_double_spin_box created_panel) \<noteq> 0"
    by (simp add: created_panel_facts(3))
  have ex: "objExists (maya created_panel) 1 \<and> objExists (maya created_panel) 2
      \<and> double_value (turntable_rotation_double_spin_box created_panel) \<noteq> 0"
    using created_panel_objects nz' by simp
  have c: "has_returned (apply_button_on_clicked created_panel)"
     "length (nodes (maya (outcome_state (apply_button_on_clicked created_panel)))) = 3"
     "map_option translateY (lookup_node (maya (outcome_state (apply_button_on_clicked created_panel))) 1)
        = Some 2"
     "map_option translateZ (lookup_node (maya (outcome_state (apply_button_on_clicked created_panel))) 1)
        = Some 5"
    using apply_button_fallback[OF created_panel_facts(1,2)] ex
    by (simp_all add: Let_def created_panel_facts(4,5,6))
  show ?thesis
    using m d c created_panel_objects camera_deleted_panel_facts(1,2) created_panel_facts(1,2)
    by blast
qed

text \<open>
  C5 as the specification states it fails when the angle box holds 0: with the camera
  deleted, Apply falls back to Create, which raises on the division.
\<close>

theorem apply_button_zero_angle:
  "camera_field camera_deleted_zero_angle_panel = Some 1
   \<and> group_field camera_deleted_zero_angle_panel = Some 2
   \<and> \<not> objExists (maya camera_deleted_zero_angle_panel) 1
   \<and> raised_error (apply_button_on_clicked camera_deleted_zero_angle_panel) = Some ZeroDivisionError
   \<and> \<not> has_returned (apply_button_on_clicked camera_deleted_zero_angle_panel)"
proof -
  have m: "\<not> (objExists (maya camera_deleted_zero_angle_panel) 1
             \<and> objExists (maya camera_deleted_zero_angle_panel) 2)"
    using camera_deleted_zero_angle_panel_facts(4) by simp
  show ?thesis
    using camera_deleted_zero_angle_panel_facts
    by (simp add: apply_missing[OF camera_deleted_zero_angle_panel_facts(1,2) m]
        create_Raised[OF camera_deleted_zero_angle_panel_facts(3)])
qed

text \<open>
  C10. \<^verbatim>\<open>set_rotation\<close> raises \<^verbatim>\<open>ZeroDivisionError\<close> exactly when the angle interval
  is 0, and the division of line 359 fails exactly then. The angle box runs from -90
  to 90 and takes 0, which \<^verbatim>\<open>update_setting_values\<close> then stores as the angle
  interval: nothing but \<open>angle_interval \<noteq> 0\<close> keeps the division defined.
\<close>

theorem set_rotation_division_by_zero:
  "((raised_error (set_rotation rotator s) = Some ZeroDivisionError) = (angle_interval s = 0))
   \<and> ((end_time_of T0 a = Inl ZeroDivisionError) = (a = 0))
   \<and> double_minimum (turntable_rotation_double_spin_box (initialize_UI sc)) = - 90
   \<and> double_maximum (turntable_rotation_double_spin_box (initialize_UI sc)) = 90
   \<and> angle_interval (update_setting_values ((initialize_UI sc)
         \<lparr>turntable_rotation_double_spin_box :=
            double_spin_box_setValue 0 (turntable_rotation_double_spin_box (initialize_UI sc))\<rparr>)) = 0"
proof -
  have a: "(raised_error (set_rotation rotator s) = Some ZeroDivisionError) = (angle_interval s = 0)"
  proof (cases "angle_interval s = 0")
    case True
    then show ?thesis by (simp add: set_rotation_zero)
  next
    case False
    show ?thesis
    proof (cases "lookup_node (maya s) rotator")
      case None
      show ?thesis using False by (simp add: set_rotation_missing[OF None False refl refl])
    next
      case (Some nd)
      show ?thesis using False by (simp add: set_rotation_rotated[OF Some False])
    qed
  qed
  have b: "(end_time_of T0 a = Inl ZeroDivisionError) = (a = 0)"
    by (simp add: end_time_of_def)
  show ?thesis
    using a b
    by (simp add: initialize_UI_def update_setting_values_def double_spin_box_setValue_def)
qed

theorem set_rotation_division_by_zero_witness:
  "angle_interval (update_setting_values zero_angle_panel) = 0
   \<and> raised_error (set_rotation 0 (update_setting_values zero_angle_panel)) = Some ZeroDivisionError
   \<and> angle_interval fresh_panel = 3 / 4
   \<and> raised_error (set_rotation 0 fresh_panel) \<noteq> Some ZeroDivisionError"
proof -
  have z: "angle_interval (update_setting_values zero_angle_panel) = 0"
    by (simp add: zero_angle_panel_facts)
  have f: "angle_interval fresh_panel = 3 / 4" by (simp add: fresh_panel_facts)
  show ?thesis
    using z f set_rotation_division_by_zero[of 0 "update_setting_values zero_angle_panel"]
      set_rotation_division_by_zero[of 0 fresh_panel]
    by simp
qed

section \<open>The linked controls\<close>

lemma slider_setValue_same:
  "bound (slider_minimum w) (slider_maximum w) v = slider_value w \<Longrightarrow>
   slider_setValue (Suc n) v w = Some w"
  by simp

lemma spin_box_setValue_same:
  "bound (spin_minimum w) (spin_maximum w) v = spin_value w \<Longrightarrow>
   spin_box_setValue (Suc n) v w = Some w"
  by simp

lemma slider_setRange_inside:
  assumes "lo \<le> slider_value w" and "slider_value w \<le> hi"
  shows "slider_setRange (Suc (Suc n)) lo hi w
           = Some (w\<lparr>slider_minimum := lo, slider_maximum := hi\<rparr>)"
  using assms by (simp add: bound_def Let_def max_def min_def)

lemma py_int_pos: "0 \<le> x \<Longrightarrow> py_int x = \<lfloor>x\<rfloor>"
  by (simp add: py_int_def)

lemma py_int_neg: "x \<le> 0 \<Longrightarrow> py_int x = \<lceil>x\<rceil>"
  by (auto simp add: py_int_def)

lemma grow_above:
  assumes "real_of_int v \<ge> real_of_int M * (98 / 100)" and "0 < M"
  shows "0 < v" and "M \<le> py_int (real_of_int v * (107 / 100))"
    and "v \<le> py_int (real_of_int v * (107 / 100))"
proof -
  have "0 < real_of_int M" using assms(2) by simp
  then have "0 < real_of_int v" using assms(1) by linarith
  then show v: "0 < v" by simp
  have p: "py_int (real_of_int v * (107 / 100)) = \<lfloor>real_of_int v * (107 / 100)\<rfloor>"
    using v by (simp add: py_int_pos)
  have "real_of_int M \<le> real_of_int v * (107 / 100)"
    using assms by simp
  then show "M \<le> py_int (real_of_int v * (107 / 100))"
    unfolding p by (simp add: le_floor_iff)
  have "real_of_int v \<le> real_of_int v * (107 / 100)"
    using v by simp
  then show "v \<le> py_int (real_of_int v * (107 / 100))"
    unfolding p by (simp add: le_floor_iff)
qed

lemma grow_below:
  assumes "real_of_int v \<le> real_of_int m * (98 / 100)" and "m \<le> 0"
  shows "v \<le> 0" and "py_int (real_of_int v * (107 / 100)) \<le> m"
    and "py_int (real_of_int v * (107 / 100)) \<le> v"
proof -
  have "real_of_int m \<le> 0" using assms(2) by simp
  then have "real_of_int v \<le> 0" using assms(1) by linarith
  then show v: "v \<le> 0" by simp
  have "real_of_int v * (107 / 100) \<le> 0" using v by simp
  then have p: "py_int (real_of_int v * (107 / 100)) = \<lceil>real_of_int v * (107 / 100)\<rceil>"
    by (rule py_int_neg)
  have "real_of_int v * (107 / 100) \<le> real_of_int m"
    using assms by simp
  then show "py_int (real_of_int v * (107 / 100)) \<le> m"
    unfolding p by (simp add: ceiling_le_iff)
  have "real_of_int v * (107 / 100) \<le> real_of_int v"
    using v by simp
  then show "py_int (real_of_int v * (107 / 100)) \<le> v"
    unfolding p by (simp add: ceiling_le_iff)
qed

lemma py_int_of_int [simp]: "py_int (real_of_int k) = k"
  by (simp add: py_int_def)

lemma clamp_maximum:
  assumes "0 \<le> x"
  shows "py_int (if x \<ge> real_of_int S then real_of_int S else x) = min (py_int x) S"
proof (cases "x \<ge> real_of_int S")
  case True
  then have "S \<le> \<lfloor>x\<rfloor>" by (simp add: le_floor_iff)
  then show ?thesis using True assms by (simp add: py_int_pos)
next
  case False
  then have "\<lfloor>x\<rfloor> < S" by (simp add: floor_less_iff)
  then show ?thesis using False assms by (simp add: py_int_pos)
qed

lemma clamp_minimum:
  assumes "x \<le> 0"
  shows "py_int (if x \<le> real_of_int S then real_of_int S else x) = max (py_int x) S"
proof (cases "x \<le> real_of_int S")
  case True
  then have "\<lceil>x\<rceil> \<le> S" by (simp add: ceiling_le_iff)
  then show ?thesis using True assms by (simp add: py_int_neg)
next
  case False
  then have "S < \<lceil>x\<rceil>" by (simp add: less_ceiling_iff)
  then show ?thesis using False assms by (simp add: py_int_neg)
qed

lemma on_value_changed_ok:
  assumes ok: "ranges_ok w"
  shows "on_value_changed (Suc (Suc (Suc n))) v w
     = Some (w\<lparr>slider_minimum := lowered_minimum v w, slider_maximum := raised_maximum v w\<rparr>)"
proof (cases "real_of_int v \<ge> real_of_int (slider_maximum w) * (98 / 100)")
  case True
  have M: "0 < slider_maximum w" using ok by (simp add: ranges_ok_def)
  note g = grow_above[OF True M]
  let ?x = "real_of_int v * (107 / 100)"
  have x0: "0 \<le> ?x" using g(1) by simp
  let ?m = "min (py_int ?x) (spin_maximum w)"
  have m: "slider_value w \<le> ?m" "slider_minimum w \<le> slider_value w"
    using ok g(2) by (simp_all add: ranges_ok_def)
  have r: "slider_setRange (Suc (Suc n)) (slider_minimum w) ?m w
         = Some (w\<lparr>slider_minimum := slider_minimum w, slider_maximum := ?m\<rparr>)"
    by (rule slider_setRange_inside[OF m(2) m(1)])
  have nb: "\<not> real_of_int v \<le> real_of_int (slider_minimum w) * (98 / 100)"
  proof
    assume "real_of_int v \<le> real_of_int (slider_minimum w) * (98 / 100)"
    moreover have "real_of_int (slider_minimum w) \<le> 0" using ok by (simp add: ranges_ok_def)
    ultimately have "real_of_int v \<le> 0" by linarith
    then show False using g(1) by simp
  qed
  have rm: "raised_maximum v w = ?m" using True by (simp add: raised_maximum_def)
  have lm: "lowered_minimum v w = slider_minimum w" using nb by (simp add: lowered_minimum_def)
  have "on_value_changed (Suc (Suc (Suc n))) v w
      = (case slider_setRange (Suc (Suc n)) (slider_minimum w) ?m w of
           None \<Rightarrow> None
         | Some w1 \<Rightarrow>
             if spin_minimum w1 < 0
                \<and> real_of_int v \<le> real_of_int (slider_minimum w1) * (98 / 100)
             then (let negative_spin = real_of_int v * (107 / 100);
                       negative_spin = (if negative_spin \<le> real_of_int (spin_minimum w1)
                                        then real_of_int (spin_minimum w1) else negative_spin)
                   in slider_setRange (Suc (Suc n)) (py_int negative_spin) (slider_maximum w1) w1)
             else Some w1)"
    using True clamp_maximum[OF x0, of "spin_maximum w"]
    by (simp only: on_value_changed.simps Let_def if_True)
  also have "\<dots> = Some (w\<lparr>slider_minimum := slider_minimum w, slider_maximum := ?m\<rparr>)"
    unfolding r using nb by simp
  finally show ?thesis by (simp add: rm lm)
next
  case False
  have rm: "raised_maximum v w = slider_maximum w" using False by (simp add: raised_maximum_def)
  show ?thesis
  proof (cases "spin_minimum w < 0 \<and> real_of_int v \<le> real_of_int (slider_minimum w) * (98 / 100)")
    case B: True
    have mn: "slider_minimum w \<le> 0" using ok by (simp add: ranges_ok_def)
    note g = grow_below[OF conjunct2[OF B] mn]
    let ?x = "real_of_int v * (107 / 100)"
    have x0: "?x \<le> 0" using g(1) by simp
    let ?m = "max (py_int ?x) (spin_minimum w)"
    have m: "?m \<le> slider_value w" "slider_value w \<le> slider_maximum w"
      using ok g(2) by (simp_all add: ranges_ok_def)
    have r: "slider_setRange (Suc (Suc n)) ?m (slider_maximum w) w
           = Some (w\<lparr>slider_minimum := ?m, slider_maximum := slider_maximum w\<rparr>)"
      by (rule slider_setRange_inside[OF m])
    have lm: "lowered_minimum v w = ?m" using B by (simp add: lowered_minimum_def)
    have "on_value_changed (Suc (Suc (Suc n))) v w
        = slider_setRange (Suc (Suc n)) ?m (slider_maximum w) w"
      using False B clamp_minimum[OF x0, of "spin_minimum w"]
      by (simp only: on_value_changed.simps Let_def if_False if_True option.case simp_thms)
    also have "\<dots> = Some (w\<lparr>slider_minimum := ?m, slider_maximum := slider_maximum w\<rparr>)"
      by (rule r)
    finally show ?thesis by (simp add: rm lm)
  next
    case nB: False
    have lm: "lowered_minimum v w = slider_minimum w"
      unfolding lowered_minimum_def using nB by (rule if_not_P)
    have "on_value_changed (Suc (Suc (Suc n))) v w = Some w"
      using False nB by (simp only: on_value_changed.simps Let_def if_False option.case simp_thms)
    then show ?thesis by (simp add: rm lm)
  qed
qed

lemma raised_maximum_bounds:
  assumes ok: "ranges_ok w" and v: "v \<le> spin_maximum w"
  shows "v \<le> raised_maximum v w" and "0 < raised_maximum v w"
    and "raised_maximum v w \<le> spin_maximum w" and "slider_maximum w \<le> raised_maximum v w"
proof -
  have M: "0 < slider_maximum w" "slider_maximum w \<le> spin_maximum w"
    using ok by (simp_all add: ranges_ok_def)
  show "v \<le> raised_maximum v w"
  proof (cases "real_of_int v \<ge> real_of_int (slider_maximum w) * (98 / 100)")
    case True
    then show ?thesis using grow_above(3)[OF True M(1)] v by (simp add: raised_maximum_def)
  next
    case False
    then have "real_of_int v \<le> real_of_int (slider_maximum w)" using M(1) by simp
    then show ?thesis using False by (simp add: raised_maximum_def)
  qed
  show le: "slider_maximum w \<le> raised_maximum v w"
  proof (cases "real_of_int v \<ge> real_of_int (slider_maximum w) * (98 / 100)")
    case True
    then show ?thesis using grow_above(2)[OF True M(1)] M(2) by (simp add: raised_maximum_def)
  next
    case False
    then show ?thesis by (simp add: raised_maximum_def)
  qed
  show "0 < raised_maximum v w" using le M(1) by simp
  show "raised_maximum v w \<le> spin_maximum w"
    using M by (simp add: raised_maximum_def)
qed

lemma lowered_minimum_bounds:
  assumes ok: "ranges_ok w" and v: "spin_minimum w \<le> v"
  shows "lowered_minimum v w \<le> v" and "lowered_minimum v w \<le> 0"
    and "spin_minimum w \<le> lowered_minimum v w" and "lowered_minimum v w \<le> slider_minimum w"
proof -
  have m: "slider_minimum w \<le> 0" "spin_minimum w \<le> slider_minimum w"
    using ok by (simp_all add: ranges_ok_def)
  show "lowered_minimum v w \<le> v"
  proof (cases "spin_minimum w < 0 \<and> real_of_int v \<le> real_of_int (slider_minimum w) * (98 / 100)")
    case True
    then show ?thesis
      using grow_below(3)[OF conjunct2[OF True] m(1)] v by (simp add: lowered_minimum_def)
  next
    case False
    have lm: "lowered_minimum v w = slider_minimum w"
      unfolding lowered_minimum_def using False by (rule if_not_P)
    show ?thesis
    proof (cases "spin_minimum w < 0")
      case True
      then have "real_of_int (slider_minimum w) * (98 / 100) < real_of_int v"
        using False by simp
      moreover have "real_of_int (slider_minimum w) \<le> real_of_int (slider_minimum w) * (98 / 100)"
        using m(1) by simp
      ultimately have "real_of_int (slider_minimum w) \<le> real_of_int v" by linarith
      then show ?thesis by (simp add: lm)
    next
      case False
      then show ?thesis using m v by (simp add: lm)
    qed
  qed
  show le: "lowered_minimum v w \<le> slider_minimum w"
  proof (cases "spin_minimum w < 0 \<and> real_of_int v \<le> real_of_int (slider_minimum w) * (98 / 100)")
    case True
    then show ?thesis
      using grow_below(2)[OF conjunct2[OF True] m(1)] m(2) by (simp add: lowered_minimum_def)
  next
    case False
    have "lowered_minimum v w = slider_minimum w"
      unfolding lowered_minimum_def using False by (rule if_not_P)
    then show ?thesis by simp
  qed
  show "lowered_minimum v w \<le> 0" using le m(1) by simp
  show "spin_minimum w \<le> lowered_minimum v w"
    using m by (simp add: lowered_minimum_def)
qed

lemma bound_inside: "lo \<le> v \<Longrightarrow> v \<le> hi \<Longrightarrow> bound lo hi v = v"
  by (simp add: bound_def)

lemma bound_range: "lo \<le> hi \<Longrightarrow> lo \<le> bound lo hi v \<and> bound lo hi v \<le> hi"
  by (auto simp add: bound_def)

lemma linked_ok_synced:
  assumes ok: "ranges_ok w" and v: "spin_minimum w \<le> v" "v \<le> spin_maximum w"
  shows "linked_ok (synced v w)"
  using raised_maximum_bounds[OF ok v(2)] lowered_minimum_bounds[OF ok v(1)]
  by (simp add: linked_ok_def ranges_ok_def synced_def)

lemma range_of_spin_value [simp]:
  "lowered_minimum v (w\<lparr>spin_value := x\<rparr>) = lowered_minimum v w"
  "raised_maximum v (w\<lparr>spin_value := x\<rparr>) = raised_maximum v w"
  "lowered_minimum v (w\<lparr>slider_value := x\<rparr>) = lowered_minimum v w"
  "raised_maximum v (w\<lparr>slider_value := x\<rparr>) = raised_maximum v w"
  by (simp_all add: lowered_minimum_def raised_maximum_def)

lemma spin_box_changed:
  assumes ok: "ranges_ok w" and v: "spin_minimum w \<le> v" "v \<le> spin_maximum w"
    and ne: "v \<noteq> spin_value w"
  shows "spin_box_setValue (Suc (Suc (Suc (Suc n)))) v w = Some (synced v w)"
proof -
  let ?w1 = "w\<lparr>spin_value := v\<rparr>"
  let ?w2 = "?w1\<lparr>slider_minimum := lowered_minimum v ?w1, slider_maximum := raised_maximum v ?w1\<rparr>"
  have ok1: "ranges_ok ?w1" using ok by (simp add: ranges_ok_def)
  have o: "on_value_changed (Suc (Suc (Suc n))) v ?w1 = Some ?w2"
    by (rule on_value_changed_ok[OF ok1])
  have b2: "bound (slider_minimum ?w2) (slider_maximum ?w2) v = v"
    using raised_maximum_bounds(1)[OF ok v(2)] lowered_minimum_bounds(1)[OF ok v(1)]
    by (simp add: bound_inside)
  have s: "slider_setValue (Suc (Suc (Suc n))) v ?w2 = Some (synced v w)"
  proof (cases "v = slider_value w")
    case True
    have a: "slider_setValue (Suc (Suc (Suc n))) v ?w2 = Some ?w2"
      using b2 True by (intro slider_setValue_same) simp
    have e: "?w2 = synced v w"
      using True by (simp add: synced_def)
    show ?thesis by (subst e[symmetric]) (rule a)
  next
    case False
    have "slider_setValue (Suc (Suc (Suc n))) v ?w2
        = spin_box_setValue (Suc (Suc n)) v (?w2\<lparr>slider_value := v\<rparr>)"
      using False b2 by (simp only: slider_setValue.simps Let_def) simp
    also have "\<dots> = Some (?w2\<lparr>slider_value := v\<rparr>)"
      using v by (intro spin_box_setValue_same) (simp add: bound_inside)
    also have "?w2\<lparr>slider_value := v\<rparr> = synced v w"
      by (simp add: synced_def)
    finally show ?thesis .
  qed
  have "spin_box_setValue (Suc (Suc (Suc (Suc n)))) v w
      = (case on_value_changed (Suc (Suc (Suc n))) v ?w1 of
           None \<Rightarrow> None
         | Some w1 \<Rightarrow> slider_setValue (Suc (Suc (Suc n))) v w1)"
    using ne v by (simp only: spin_box_setValue.simps Let_def bound_inside if_False)
  also have "\<dots> = slider_setValue (Suc (Suc (Suc n))) v ?w2"
    unfolding o by simp
  also note s
  finally show ?thesis .
qed

lemma ranges_ok_spin_range: "ranges_ok w \<Longrightarrow> spin_minimum w \<le> spin_maximum w"
  by (simp add: ranges_ok_def)

lemma spin_box_setValue_ok:
  assumes ok: "linked_ok w"
  shows "spin_box_setValue (n + 4) v w
     = Some (if bound (spin_minimum w) (spin_maximum w) v = spin_value w then w
             else synced (bound (spin_minimum w) (spin_maximum w) v) w)"
proof -
  let ?v = "bound (spin_minimum w) (spin_maximum w) v"
  have r: "ranges_ok w" using ok by (simp add: linked_ok_def)
  have b: "spin_minimum w \<le> ?v" "?v \<le> spin_maximum w"
    using bound_range[OF ranges_ok_spin_range[OF r]] by simp_all
  have n4: "n + 4 = Suc (Suc (Suc (Suc n)))" by simp
  show ?thesis
  proof (cases "?v = spin_value w")
    case True
    then show ?thesis unfolding n4 by (simp add: spin_box_setValue_same del: spin_box_setValue.simps)
  next
    case False
    have "spin_box_setValue (n + 4) v w = spin_box_setValue (n + 4) ?v w"
      unfolding n4 using b by (simp only: spin_box_setValue.simps bound_inside)
    also have "\<dots> = Some (synced ?v w)"
      unfolding n4 by (rule spin_box_changed[OF r b False])
    finally show ?thesis using False by simp
  qed
qed

lemma slider_setValue_ok:
  assumes ok: "linked_ok w"
  shows "slider_setValue (n + 5) v w
     = Some (if bound (slider_minimum w) (slider_maximum w) v = slider_value w then w
             else synced (bound (slider_minimum w) (slider_maximum w) v) w)"
proof -
  let ?v = "bound (slider_minimum w) (slider_maximum w) v"
  have r: "ranges_ok w" and e: "spin_value w = slider_value w"
    using ok by (simp_all add: linked_ok_def)
  have sl: "slider_minimum w \<le> slider_maximum w" using r by (simp add: ranges_ok_def)
  have b: "spin_minimum w \<le> ?v" "?v \<le> spin_maximum w"
    using bound_range[OF sl, of v] r by (simp_all add: ranges_ok_def)
  have n5: "n + 5 = Suc (Suc (Suc (Suc (Suc n))))" by simp
  show ?thesis
  proof (cases "?v = slider_value w")
    case True
    then show ?thesis unfolding n5 by (simp add: slider_setValue_same del: slider_setValue.simps)
  next
    case False
    let ?w1 = "w\<lparr>slider_value := ?v\<rparr>"
    have r1: "ranges_ok ?w1"
      using r bound_range[OF sl, of v] by (simp add: ranges_ok_def)
    have ne: "?v \<noteq> spin_value ?w1" using False e by simp
    have "slider_setValue (n + 5) v w = spin_box_setValue (Suc (Suc (Suc (Suc n)))) ?v ?w1"
      unfolding n5 using False by (simp only: slider_setValue.simps Let_def if_False)
    also have "\<dots> = Some (synced ?v ?w1)"
      using b by (intro spin_box_changed[OF r1 _ _ ne]) simp_all
    also have "synced ?v ?w1 = synced ?v w"
      by (simp add: synced_def)
    finally show ?thesis using False by simp
  qed
qed

lemma initial_controls_linked:
  "linked_ok (camera_distance_controls (initialize_UI sc))"
  "linked_ok (camera_height_controls (initialize_UI sc))"
  by (simp_all add: initialize_UI_def linked_ok_def ranges_ok_def)

lemma distance_controls_at_60_facts:
  "ranges_ok distance_controls_at_60"
  "slider_maximum distance_controls_at_60 = 60"
  "spin_maximum distance_controls_at_60 = 2147483647"
  by (simp_all add: distance_controls_at_60_def new_panel_def initialize_UI_def ranges_ok_def)

text \<open>
  C8, as amended. For a pair whose ranges are as the panel keeps them, the handler
  returns, and it leaves the slider's maximum at \<open>min \<lfloor>v * 1.07\<rfloor> (spin maximum)\<close> when
  \<open>v \<ge> 0.98 * (slider maximum)\<close>, and as it was otherwise.
\<close>

theorem on_value_changed_slider_maximum:
  assumes "ranges_ok w"
  shows "map_option slider_maximum (on_value_changed (n + 3) v w)
     = Some (if real_of_int v \<ge> 98 / 100 * real_of_int (slider_maximum w)
             then min \<lfloor>real_of_int v * (107 / 100)\<rfloor> (spin_maximum w)
             else slider_maximum w)"
proof -
  have n3: "n + 3 = Suc (Suc (Suc n))" by simp
  have M: "0 < slider_maximum w" using assms by (simp add: ranges_ok_def)
  have "raised_maximum v w
      = (if real_of_int v \<ge> 98 / 100 * real_of_int (slider_maximum w)
         then min \<lfloor>real_of_int v * (107 / 100)\<rfloor> (spin_maximum w)
         else slider_maximum w)"
  proof (cases "real_of_int v \<ge> real_of_int (slider_maximum w) * (98 / 100)")
    case True
    have "0 \<le> real_of_int v * (107 / 100)" using grow_above(1)[OF True M] by simp
    then have "py_int (real_of_int v * (107 / 100)) = \<lfloor>real_of_int v * (107 / 100)\<rfloor>"
      by (rule py_int_pos)
    then show ?thesis using True by (simp add: raised_maximum_def mult.commute)
  next
    case False
    then show ?thesis by (simp add: raised_maximum_def mult.commute)
  qed
  then show ?thesis
    unfolding n3 on_value_changed_ok[OF assms] by simp
qed

theorem on_value_changed_slider_maximum_witness:
  "ranges_ok distance_controls_at_60
   \<and> map_option slider_maximum (on_value_changed 3 60 distance_controls_at_60) = Some 64
   \<and> map_option slider_maximum (on_value_changed 3 10 distance_controls_at_60) = Some 60"
  using on_value_changed_slider_maximum[OF distance_controls_at_60_facts(1), of 0 60]
    on_value_changed_slider_maximum[OF distance_controls_at_60_facts(1), of 0 10]
  by (simp add: distance_controls_at_60_facts)

text \<open>
  C8 as the specification states it fails: the slider's maximum is an integer. With a
  maximum of 60 and a value of 60 the handler leaves 64, not \<open>60 * 1.07 = 64.2\<close>.
\<close>

theorem on_value_changed_truncates:
  "slider_maximum distance_controls_at_60 = 60
   \<and> real_of_int 60 \<ge> 98 / 100 * real_of_int (slider_maximum distance_controls_at_60)
   \<and> map_option slider_maximum (on_value_changed 3 60 distance_controls_at_60) = Some 64
   \<and> real_of_int 64 \<noteq> min (real_of_int 60 * (107 / 100))
                            (real_of_int (spin_maximum distance_controls_at_60))"
proof -
  have "on_value_changed (Suc (Suc (Suc 0))) 60 distance_controls_at_60
      = Some (distance_controls_at_60
               \<lparr>slider_minimum := lowered_minimum 60 distance_controls_at_60,
                slider_maximum := raised_maximum 60 distance_controls_at_60\<rparr>)"
    by (rule on_value_changed_ok[OF distance_controls_at_60_facts(1)])
  moreover have "raised_maximum 60 distance_controls_at_60 = 64"
    by (simp add: raised_maximum_def distance_controls_at_60_facts py_int_def)
  ultimately show ?thesis
    by (simp add: distance_controls_at_60_facts numeral_3_eq_3)
qed

text \<open>
  C9. Both pairs of the panel start linked. From a linked pair, setting the spin box
  (with fuel for four nested calls) or the slider (five) ends, leaves both widgets at
  the value the widget that was set has accepted, its own range bounding it, and
  leaves the pair linked.
\<close>

theorem linked_controls_stay_equal:
  assumes "linked_ok w"
  shows "linked_ok (camera_distance_controls (initialize_UI sc))
       \<and> linked_ok (camera_height_controls (initialize_UI sc))
       \<and> map_option (\<lambda>w'. (spin_value w', slider_value w')) (spin_box_setValue (n + 4) v w)
            = Some (bound (spin_minimum w) (spin_maximum w) v,
                    bound (spin_minimum w) (spin_maximum w) v)
       \<and> map_option linked_ok (spin_box_setValue (n + 4) v w) = Some True
       \<and> map_option (\<lambda>w'. (spin_value w', slider_value w')) (slider_setValue (n + 5) v w)
            = Some (bound (slider_minimum w) (slider_maximum w) v,
                    bound (slider_minimum w) (slider_maximum w) v)
       \<and> map_option linked_ok (slider_setValue (n + 5) v w) = Some True"
proof -
  have r: "ranges_ok w" and e: "spin_value w = slider_value w"
    using assms by (simp_all add: linked_ok_def)
  have sl: "slider_minimum w \<le> slider_maximum w" using r by (simp add: ranges_ok_def)
  have b: "spin_minimum w \<le> bound (spin_minimum w) (spin_maximum w) v"
      "bound (spin_minimum w) (spin_maximum w) v \<le> spin_maximum w"
    using bound_range[OF ranges_ok_spin_range[OF r]] by simp_all
  have b': "spin_minimum w \<le> bound (slider_minimum w) (slider_maximum w) v"
      "bound (slider_minimum w) (slider_maximum w) v \<le> spin_maximum w"
    using bound_range[OF sl, of v] r by (simp_all add: ranges_ok_def)
  show ?thesis
    unfolding spin_box_setValue_ok[OF assms] slider_setValue_ok[OF assms]
    using initial_controls_linked[of sc] assms e
      linked_ok_synced[OF r b] linked_ok_synced[OF r b']
    by (simp add: synced_def)
qed

theorem linked_controls_stay_equal_witness:
  "linked_ok (camera_distance_controls new_panel)
   \<and> map_option (\<lambda>w'. (spin_value w', slider_value w'))
        (spin_box_setValue 4 1000 (camera_distance_controls new_panel)) = Some (1000, 1000)
   \<and> map_option (\<lambda>w'. (spin_value w', slider_value w'))
        (slider_setValue 5 30 (camera_distance_controls new_panel)) = Some (30, 30)
   \<and> map_option (\<lambda>w'. (spin_value w', slider_value w'))
        (slider_setValue 5 (- 40) (camera_height_controls new_panel)) = Some (- 20, - 20)"
proof -
  have d: "linked_ok (camera_distance_controls new_panel)"
    and h: "linked_ok (camera_height_controls new_panel)"
    by (simp_all add: new_panel_def initial_controls_linked)
  show ?thesis
    using d linked_controls_stay_equal[OF d, of new_scene 0 1000]
      linked_controls_stay_equal[OF d, of new_scene 0 30]
      linked_controls_stay_equal[OF h, of new_scene 0 "- 40"]
    by (simp add: new_panel_def initialize_UI_def bound_def)
qed

end
